theory Spec2Isabelle
  imports Complex_Main "HOL-Library.Log_Nat"
begin

text \<open>
  The endpoint \<^verbatim>\<open>api/simple-rcv.js\<close>: it reads the reference rate (\<open>getUFActual\<close>),
  fetches the sales and purchases of a period from the remote service (\<open>consultarRCV\<close>),
  reconciles them with the tables \<^verbatim>\<open>facturas_emitidas\<close> and \<^verbatim>\<open>facturas_recibidas\<close>
  (\<open>procesarFacturasEmitidas\<close>, \<open>procesarFacturasRecibidas\<close>), writes a row of the audit
  log for each side (\<open>registrarSync\<close>) and answers with a summary (\<open>handler\<close>).

  The functions are modelled as functions on an explicit world: the four tables, the
  answers the datastore and the remote service will give, the clock, and the trace of
  the calls made. A function that can throw returns a sum, \<open>Inl\<close> the message of the
  error.
\<close>

section \<open>JavaScript numbers\<close>

text \<open>
  A JavaScript number is an IEEE 754 binary64 value. A finite one is represented by the
  rational it denotes; the two infinities and NaN are separate constructors. The sign of
  zero is not tracked (it is lost anyway when a value is serialised to JSON).
\<close>

datatype numero = Finito rat | Infinito | MenosInfinito | NaN

definition dos_a :: "int \<Rightarrow> rat" where
  "dos_a e = (if 0 \<le> e then 2 ^ nat e else 1 / 2 ^ nat (- e))"

text \<open>\<open>exponente2 q\<close> is the integer \<open>e\<close> with \<open>2^e \<le> |q| < 2^(e+1)\<close>, for \<open>q \<noteq> 0\<close>.\<close>

definition exponente2 :: "rat \<Rightarrow> int" where
  "exponente2 q =
     (let (n, d) = quotient_of \<bar>q\<bar>; e = bitlen n - bitlen d
      in if dos_a e \<le> \<bar>q\<bar> then e else e - 1)"

text \<open>Rounding to the nearest integer, a tie going to the even neighbour.\<close>

definition redondeo_par :: "rat \<Rightarrow> int" where
  "redondeo_par x =
     (let f = \<lfloor>x\<rfloor>; r = x - of_int f
      in if r < 1 / 2 then f
         else if 1 / 2 < r then f + 1
         else if even f then f else f + 1)"

text \<open>
  \<open>a_doble q\<close> is the binary64 value nearest to the exact result \<open>q\<close> of an arithmetic
  operation (round to nearest, ties to even): 53 significant bits, the exponent of the
  last place not below \<open>-1074\<close> (subnormal range), and overflow to an infinity when
  the rounded value reaches \<open>2^1024\<close>.
\<close>

definition a_doble :: "rat \<Rightarrow> numero" where
  "a_doble q =
     (if q = 0 then Finito 0
      else let e = max (exponente2 q) (- 1022);
               u = dos_a (e - 52);
               n = redondeo_par (q / u)
           in if 1024 \<le> e \<or> (e = 1023 \<and> 2 ^ 53 \<le> \<bar>n\<bar>)
              then (if 0 < q then Infinito else MenosInfinito)
              else Finito (of_int n * u))"

text \<open>The operator \<open>/\<close> of JavaScript.\<close>

fun dividir :: "numero \<Rightarrow> numero \<Rightarrow> numero" where
  "dividir (Finito a) (Finito b) =
     (if b = 0 then (if a = 0 then NaN else if 0 < a then Infinito else MenosInfinito)
      else a_doble (a / b))"
| "dividir (Finito a) Infinito = Finito 0"
| "dividir (Finito a) MenosInfinito = Finito 0"
| "dividir Infinito (Finito b) = (if b < 0 then MenosInfinito else Infinito)"
| "dividir MenosInfinito (Finito b) = (if b < 0 then Infinito else MenosInfinito)"
| "dividir _ _ = NaN"

text \<open>The operator \<open>*\<close> of JavaScript.\<close>

fun multiplicar :: "numero \<Rightarrow> numero \<Rightarrow> numero" where
  "multiplicar (Finito a) (Finito b) = a_doble (a * b)"
| "multiplicar NaN _ = NaN"
| "multiplicar _ NaN = NaN"
| "multiplicar (Finito a) Infinito = (if a = 0 then NaN else if 0 < a then Infinito else MenosInfinito)"
| "multiplicar (Finito a) MenosInfinito = (if a = 0 then NaN else if 0 < a then MenosInfinito else Infinito)"
| "multiplicar Infinito (Finito b) = (if b = 0 then NaN else if 0 < b then Infinito else MenosInfinito)"
| "multiplicar MenosInfinito (Finito b) = (if b = 0 then NaN else if 0 < b then MenosInfinito else Infinito)"
| "multiplicar Infinito Infinito = Infinito"
| "multiplicar MenosInfinito MenosInfinito = Infinito"
| "multiplicar Infinito MenosInfinito = MenosInfinito"
| "multiplicar MenosInfinito Infinito = MenosInfinito"

text \<open>
  \<open>Math.round\<close>: the nearest integer, a tie going towards \<open>+\<infinity>\<close>. On a binary64 value
  the result is exact.
\<close>

fun math_round :: "numero \<Rightarrow> numero" where
  "math_round (Finito x) = Finito (of_int \<lfloor>x + 1 / 2\<rfloor>)"
| "math_round n = n"

text \<open>
  The expression \<^verbatim>\<open>Math.round((doc.montoTotal / ufActual) * 100) / 100\<close> of both
  reconcilers.
\<close>

definition calcular_monto_uf :: "numero \<Rightarrow> numero \<Rightarrow> numero" where
  "calcular_monto_uf montoTotal ufActual =
     dividir (math_round (multiplicar (dividir montoTotal ufActual) (Finito 100))) (Finito 100)"

text \<open>
  The value the specification gives for the derived amount: the exact quotient rounded
  to two decimal places, \<open>round (T / R * 100) / 100\<close> (as a number, the binary64 value
  nearest to it).
\<close>

definition redondeo_2_decimales :: "rat \<Rightarrow> rat" where
  "redondeo_2_decimales q = of_int (round (q * 100)) / 100"


section \<open>Strings\<close>

text \<open>Decimal rendering of integers, as a template literal renders an integral number.\<close>

fun mostrar_nat :: "nat \<Rightarrow> string" where
  "mostrar_nat n =
     (if n < 10 then [''0123456789'' ! n]
      else mostrar_nat (n div 10) @ [''0123456789'' ! (n mod 10)])"

definition mostrar_int :: "int \<Rightarrow> string" where
  "mostrar_int i = (if i < 0 then ''-'' @ mostrar_nat (nat (- i)) else mostrar_nat (nat i))"

text \<open>\<^verbatim>\<open>s.split(sep)\<close> for a one-character separator: never the empty list.\<close>

fun js_split :: "char \<Rightarrow> string \<Rightarrow> string list" where
  "js_split sep [] = [[]]"
| "js_split sep (c # cs) =
     (if c = sep then [] # js_split sep cs
      else (case js_split sep cs of
              [] \<Rightarrow> [[c]]
            | x # xs \<Rightarrow> (c # x) # xs))"

text \<open>Reading element \<open>i\<close> of an array: \<open>None\<close> is \<^verbatim>\<open>undefined\<close>.\<close>

definition elemento :: "'a list \<Rightarrow> nat \<Rightarrow> 'a option" where
  "elemento xs i = (if i < length xs then Some (xs ! i) else None)"

text \<open>A string or \<^verbatim>\<open>undefined\<close> inside a template literal.\<close>

definition interpolar :: "string option \<Rightarrow> string" where
  "interpolar v = (case v of None \<Rightarrow> ''undefined'' | Some s \<Rightarrow> s)"

text \<open>\<^verbatim>\<open>v || d\<close> on an optional string: absent values and the empty string are falsy.\<close>

definition o_texto :: "string option \<Rightarrow> string \<Rightarrow> string" where
  "o_texto v d = (case v of None \<Rightarrow> d | Some s \<Rightarrow> if s = [] then d else s)"

text \<open>\<^verbatim>\<open>xs.join(sep)\<close>.\<close>

fun js_join :: "string \<Rightarrow> string list \<Rightarrow> string" where
  "js_join sep [] = []"
| "js_join sep [x] = x"
| "js_join sep (x # y # ys) = x @ sep @ js_join sep (y # ys)"

section \<open>Data model\<close>

text \<open>
  A remote document is a JSON object. Its fields are typed as the data model gives them;
  a field that may be missing is an option. The issue timestamp is the one field the
  code calls a method on, so its model also has the case of a value that is neither
  missing nor a string (a number, a boolean, an array, an object).
\<close>

datatype campo_fecha = FechaAusente | FechaTexto string | FechaOtroTipo

record documento =
  folio :: int
  razonSocial :: "string option"
  rutCliente :: "string option"
  rutProveedor :: "string option"
  fechaEmision :: campo_fecha
  montoTotal :: rat
  estado :: "string option"
  tipoDTE :: "int option"

text \<open>
  Rows of the two invoice tables. The columns both tables have are the base record; each
  table extends it. \<open>id_fila\<close> is the column \<^verbatim>\<open>id\<close>, given by the datastore on insert.
  A number that JSON cannot carry (NaN, an infinity) is stored as null.
\<close>

record fila_factura =
  id_fila :: nat
  numero_folio :: int
  fecha_emision :: "string option"
  monto_clp :: rat
  monto_uf :: "rat option"
  estado_fila :: string
  origen :: string
  tipo_documento :: "int option"
  actualizado_sii :: "string option"

record fila_emitida = fila_factura +
  cliente :: string
  rut_cliente :: "string option"

record fila_recibida = fila_factura +
  proveedor :: string
  rut_proveedor :: "string option"
  categoria :: string

record fila_sync =
  tipo_sync :: string
  periodo_sync :: string
  documentos_nuevos :: nat
  documentos_actualizados :: nat
  errores_sync :: "string option"
  estado_sync :: string
  usuario_email :: "string option"

record fila_uf =
  fecha :: nat
  valor :: "rat option"

text \<open>The summary a reconciler returns.\<close>

record resumen =
  nuevos :: nat
  actualizados :: nat
  errores :: "string list"

section \<open>The environment: datastore, clock, remote service\<close>

text \<open>
  The datastore client resolves every call to a pair of data and error; it does not
  reject. What the datastore answers is not decided by the program: for each kind of
  call the world holds the answers to the coming calls, \<open>SinFallo\<close> (the statement is
  executed) or \<open>ErrorBD m\<close> (the statement is not executed and the client returns the
  error message \<open>m\<close>). A list that has run out means no further failure.
\<close>

datatype fallo = SinFallo | ErrorBD string

datatype tabla = FacturasEmitidas | FacturasRecibidas | SiiSyncLog | UfValores

record credenciales =
  apiKey :: "string option"
  rutUsuario :: "string option"
  passwordSII :: "string option"
  rutEmpresa :: "string option"

record peticion =
  url :: string
  autorizacion :: "string option"
  RutUsuario :: "string option"
  PasswordSII :: "string option"
  RutEmpresa :: "string option"
  Ambiente :: nat

text \<open>The calls that leave the process, in the order they are made.\<close>

datatype llamada =
    LlamadaSelectUF
  | LlamadaFetch peticion
  | LlamadaSelect tabla int
  | LlamadaUpdate tabla nat
  | LlamadaInsert tabla

text \<open>
  The body of a successful answer of the remote service, after \<^verbatim>\<open>response.json()\<close>:
  \<open>None\<close> stands for a path (\<^verbatim>\<open>ventas.detalleVentas\<close>, \<^verbatim>\<open>compras.detalleCompras\<close>) that is
  missing.
\<close>

record cuerpo_rcv =
  detalleVentas :: "documento list option"
  detalleCompras :: "documento list option"

text \<open>
  What \<^verbatim>\<open>fetch\<close> meets: a rejected promise with a message, or a response with its status,
  its body as text and the result of parsing the body as JSON (\<open>Inl m\<close>: parsing throws
  with message \<open>m\<close>).
\<close>

datatype respuesta_remota =
    FalloRed string
  | RespuestaHttp nat string "string + cuerpo_rcv"

record mundo =
  facturas_emitidas :: "fila_emitida list"
  facturas_recibidas :: "fila_recibida list"
  sii_sync_log :: "fila_sync list"
  uf_valores :: "fila_uf list"
  fallos_select :: "fallo list"
  fallos_update :: "fallo list"
  fallos_insert :: "fallo list"
  reloj :: "nat \<Rightarrow> string"
  lecturas :: nat
  remoto :: respuesta_remota
  traza :: "llamada list"

definition siguiente_fallo :: "fallo list \<Rightarrow> fallo \<times> fallo list" where
  "siguiente_fallo fs = (case fs of [] \<Rightarrow> (SinFallo, []) | f # rest \<Rightarrow> (f, rest))"

text \<open>\<^verbatim>\<open>new Date().toISOString()\<close>: the next reading of the clock.\<close>

definition leer_reloj :: "mundo \<Rightarrow> string \<times> mundo" where
  "leer_reloj w = (reloj w (lecturas w), w\<lparr>lecturas := Suc (lecturas w)\<rparr>)"

section \<open>Datastore statements\<close>

text \<open>
  The rows a lookup \<^verbatim>\<open>.eq('numero_folio', f).eq('origen', 'SimpleAPI')\<close> selects, and the
  data of \<^verbatim>\<open>.select('id') ... .single()\<close>: the id of the row when exactly one row is
  selected, null when none or several are.
\<close>

definition coincidencias :: "int \<Rightarrow> ('a fila_factura_scheme) list \<Rightarrow> ('a fila_factura_scheme) list" where
  "coincidencias f filas = filter (\<lambda>x. numero_folio x = f \<and> origen x = ''SimpleAPI'') filas"

definition buscar_unico :: "int \<Rightarrow> ('a fila_factura_scheme) list \<Rightarrow> nat option" where
  "buscar_unico f filas = (case coincidencias f filas of [x] \<Rightarrow> Some (id_fila x) | _ \<Rightarrow> None)"

text \<open>\<^verbatim>\<open>.update({monto_clp, monto_uf, actualizado_sii}).eq('id', i)\<close>.\<close>

definition actualizar_fila ::
    "rat \<Rightarrow> rat option \<Rightarrow> string option \<Rightarrow> 'a fila_factura_scheme \<Rightarrow> 'a fila_factura_scheme" where
  "actualizar_fila clp uf ts x = x\<lparr>monto_clp := clp, monto_uf := uf, actualizado_sii := ts\<rparr>"

definition aplicar_update ::
    "nat \<Rightarrow> rat \<Rightarrow> rat option \<Rightarrow> string option \<Rightarrow> ('a fila_factura_scheme) list \<Rightarrow> ('a fila_factura_scheme) list" where
  "aplicar_update i clp uf ts filas =
     map (\<lambda>x. if id_fila x = i then actualizar_fila clp uf ts x else x) filas"

text \<open>The id the datastore gives a new row: one not in the table.\<close>

definition id_nuevo :: "('a fila_factura_scheme) list \<Rightarrow> nat" where
  "id_nuevo filas = Suc (fold max (map id_fila filas) 0)"

text \<open>A number as it travels in a JSON body.\<close>

fun a_json :: "numero \<Rightarrow> rat option" where
  "a_json (Finito x) = Some x"
| "a_json _ = None"

text \<open>The three kinds of statement on \<^verbatim>\<open>facturas_emitidas\<close>.\<close>

definition select_emitidas :: "int \<Rightarrow> mundo \<Rightarrow> nat option \<times> mundo" where
  "select_emitidas f w =
     (let (fl, rest) = siguiente_fallo (fallos_select w);
          w' = w\<lparr>fallos_select := rest, traza := traza w @ [LlamadaSelect FacturasEmitidas f]\<rparr>
      in (case fl of
            SinFallo \<Rightarrow> (buscar_unico f (facturas_emitidas w), w')
          | ErrorBD m \<Rightarrow> (None, w')))"

definition update_emitidas :: "nat \<Rightarrow> rat \<Rightarrow> rat option \<Rightarrow> string option \<Rightarrow> mundo \<Rightarrow> mundo" where
  "update_emitidas i clp uf ts w =
     (let (fl, rest) = siguiente_fallo (fallos_update w);
          w' = w\<lparr>fallos_update := rest, traza := traza w @ [LlamadaUpdate FacturasEmitidas i]\<rparr>
      in (case fl of
            SinFallo \<Rightarrow> w'\<lparr>facturas_emitidas := aplicar_update i clp uf ts (facturas_emitidas w)\<rparr>
          | ErrorBD m \<Rightarrow> w'))"

definition insert_emitidas :: "fila_emitida \<Rightarrow> mundo \<Rightarrow> string option \<times> mundo" where
  "insert_emitidas factura w =
     (let (fl, rest) = siguiente_fallo (fallos_insert w);
          w' = w\<lparr>fallos_insert := rest, traza := traza w @ [LlamadaInsert FacturasEmitidas]\<rparr>
      in (case fl of
            SinFallo \<Rightarrow>
              (None, w'\<lparr>facturas_emitidas :=
                         facturas_emitidas w @ [factura\<lparr>id_fila := id_nuevo (facturas_emitidas w)\<rparr>]\<rparr>)
          | ErrorBD m \<Rightarrow> (Some m, w')))"

text \<open>The same on \<^verbatim>\<open>facturas_recibidas\<close>.\<close>

definition select_recibidas :: "int \<Rightarrow> mundo \<Rightarrow> nat option \<times> mundo" where
  "select_recibidas f w =
     (let (fl, rest) = siguiente_fallo (fallos_select w);
          w' = w\<lparr>fallos_select := rest, traza := traza w @ [LlamadaSelect FacturasRecibidas f]\<rparr>
      in (case fl of
            SinFallo \<Rightarrow> (buscar_unico f (facturas_recibidas w), w')
          | ErrorBD m \<Rightarrow> (None, w')))"

definition update_recibidas :: "nat \<Rightarrow> rat \<Rightarrow> rat option \<Rightarrow> string option \<Rightarrow> mundo \<Rightarrow> mundo" where
  "update_recibidas i clp uf ts w =
     (let (fl, rest) = siguiente_fallo (fallos_update w);
          w' = w\<lparr>fallos_update := rest, traza := traza w @ [LlamadaUpdate FacturasRecibidas i]\<rparr>
      in (case fl of
            SinFallo \<Rightarrow> w'\<lparr>facturas_recibidas := aplicar_update i clp uf ts (facturas_recibidas w)\<rparr>
          | ErrorBD m \<Rightarrow> w'))"

definition insert_recibidas :: "fila_recibida \<Rightarrow> mundo \<Rightarrow> string option \<times> mundo" where
  "insert_recibidas factura w =
     (let (fl, rest) = siguiente_fallo (fallos_insert w);
          w' = w\<lparr>fallos_insert := rest, traza := traza w @ [LlamadaInsert FacturasRecibidas]\<rparr>
      in (case fl of
            SinFallo \<Rightarrow>
              (None, w'\<lparr>facturas_recibidas :=
                         facturas_recibidas w @ [factura\<lparr>id_fila := id_nuevo (facturas_recibidas w)\<rparr>]\<rparr>)
          | ErrorBD m \<Rightarrow> (Some m, w')))"

section \<open>getUFActual\<close>

text \<open>
  \<^verbatim>\<open>.order('fecha', { ascending: false }).limit(1).single()\<close>: a row with the greatest
  \<open>fecha\<close>, null when the table is empty.
\<close>

fun mas_reciente :: "fila_uf list \<Rightarrow> fila_uf option" where
  "mas_reciente [] = None"
| "mas_reciente (x # xs) =
     (case mas_reciente xs of
        None \<Rightarrow> Some x
      | Some y \<Rightarrow> if fecha x < fecha y then Some y else Some x)"

definition select_uf :: "mundo \<Rightarrow> fila_uf option \<times> mundo" where
  "select_uf w =
     (let (fl, rest) = siguiente_fallo (fallos_select w);
          w' = w\<lparr>fallos_select := rest, traza := traza w @ [LlamadaSelectUF]\<rparr>
      in (case fl of
            SinFallo \<Rightarrow> (mas_reciente (uf_valores w), w')
          | ErrorBD m \<Rightarrow> (None, w')))"

text \<open>\<^verbatim>\<open>data?.valor || 38000\<close>: a missing row, a null \<open>valor\<close> and the number 0 are falsy.\<close>

definition getUFActual :: "mundo \<Rightarrow> rat \<times> mundo" where
  "getUFActual w =
     (let (data, w') = select_uf w
      in (case data of
            None \<Rightarrow> (38000, w')
          | Some fila \<Rightarrow>
              (case valor fila of
                 None \<Rightarrow> (38000, w')
               | Some v \<Rightarrow> if v = 0 then (38000, w') else (v, w'))))"

section \<open>consultarRCV\<close>

record rcv =
  ventas :: "documento list"
  compras :: "documento list"

definition armar_peticion :: "string option \<Rightarrow> string option \<Rightarrow> credenciales \<Rightarrow> peticion" where
  "armar_peticion mes anio cred =
     \<lparr>url = ''https://servicios.simpleapi.cl/api/RCV/ventas/'' @ interpolar mes @ ''/'' @ interpolar anio,
      autorizacion = apiKey cred,
      RutUsuario = rutUsuario cred,
      PasswordSII = passwordSII cred,
      RutEmpresa = rutEmpresa cred,
      Ambiente = 1\<rparr>"

text \<open>\<^verbatim>\<open>response.ok\<close>.\<close>

definition respuesta_ok :: "nat \<Rightarrow> bool" where
  "respuesta_ok st = (200 \<le> st \<and> st \<le> 299)"

text \<open>The result is \<open>Inl m\<close> when the function throws an error with message \<open>m\<close>.\<close>

definition consultarRCV ::
    "string option \<Rightarrow> string option \<Rightarrow> credenciales \<Rightarrow> mundo \<Rightarrow> (string + rcv) \<times> mundo" where
  "consultarRCV mes anio cred w =
     (let w' = w\<lparr>traza := traza w @ [LlamadaFetch (armar_peticion mes anio cred)]\<rparr>
      in (case remoto w of
            FalloRed m \<Rightarrow> (Inl m, w')
          | RespuestaHttp st texto json \<Rightarrow>
              if \<not> respuesta_ok st
              then (Inl (''Error SimpleAPI: '' @ mostrar_nat st @ '' - '' @ texto), w')
              else (case json of
                      Inl m \<Rightarrow> (Inl m, w')
                    | Inr data \<Rightarrow>
                        (Inr \<lparr>ventas = (case detalleVentas data of None \<Rightarrow> [] | Some v \<Rightarrow> v),
                              compras = (case detalleCompras data of None \<Rightarrow> [] | Some c \<Rightarrow> c)\<rparr>,
                         w'))))"

section \<open>The reconcilers\<close>

text \<open>
  \<^verbatim>\<open>doc.fechaEmision?.split('T')[0] || null\<close>. On a value that is neither missing nor a
  string, \<^verbatim>\<open>split\<close> is not a function and the call throws a TypeError (\<open>Inl\<close> with the
  message of the engine).
\<close>

definition mensaje_split :: string where
  "mensaje_split = ''doc.fechaEmision?.split is not a function''"

definition fecha_de_emision :: "campo_fecha \<Rightarrow> string + string option" where
  "fecha_de_emision c =
     (case c of
        FechaAusente \<Rightarrow> Inr None
      | FechaTexto s \<Rightarrow>
          (case elemento (js_split (CHR ''T'') s) 0 of
             None \<Rightarrow> Inr None
           | Some p \<Rightarrow> Inr (if p = [] then None else Some p))
      | FechaOtroTipo \<Rightarrow> Inl mensaje_split)"

definition mensaje_folio :: "documento \<Rightarrow> string \<Rightarrow> string" where
  "mensaje_folio doc m = ''Folio '' @ mostrar_int (folio doc) @ '': '' @ m"

subsection \<open>procesarFacturasEmitidas\<close>

text \<open>
  The object \<^verbatim>\<open>factura\<close>, given the date part \<open>fe\<close> and the clock reading \<open>ts\<close>. The object
  has no id; the \<open>id_fila\<close> written here is replaced by the datastore on insert.
\<close>

definition factura_emitida :: "documento \<Rightarrow> rat \<Rightarrow> string option \<Rightarrow> string \<Rightarrow> fila_emitida" where
  "factura_emitida doc ufActual fe ts =
     \<lparr>id_fila = 0,
      numero_folio = folio doc,
      fecha_emision = fe,
      monto_clp = montoTotal doc,
      monto_uf = a_json (calcular_monto_uf (Finito (montoTotal doc)) (Finito ufActual)),
      estado_fila = o_texto (estado doc) ''Emitida'',
      origen = ''SimpleAPI'',
      tipo_documento = tipoDTE doc,
      actualizado_sii = Some ts,
      cliente = o_texto (razonSocial doc) ''Cliente'',
      rut_cliente = rutCliente doc\<rparr>"

text \<open>The try block from the lookup on: update the row found, or insert.\<close>

definition reconciliar_emitida :: "documento \<Rightarrow> fila_emitida \<Rightarrow> resumen \<Rightarrow> mundo \<Rightarrow> resumen \<times> mundo" where
  "reconciliar_emitida doc factura r w =
     (let (existe, w1) = select_emitidas (folio doc) w
      in (case existe of
            Some i \<Rightarrow>
              (r\<lparr>actualizados := actualizados r + 1\<rparr>,
               update_emitidas i (monto_clp factura) (monto_uf factura) (actualizado_sii factura) w1)
          | None \<Rightarrow>
              (let (error, w2) = insert_emitidas factura w1
               in (case error of
                     Some m \<Rightarrow> (r\<lparr>errores := errores r @ [mensaje_folio doc m]\<rparr>, w2)
                   | None \<Rightarrow> (r\<lparr>nuevos := nuevos r + 1\<rparr>, w2)))))"

text \<open>The try block: \<open>Some m\<close> in the first component when it throws with message \<open>m\<close>.\<close>

definition intento_emitidas :: "documento \<Rightarrow> rat \<Rightarrow> resumen \<Rightarrow> mundo \<Rightarrow> string option \<times> resumen \<times> mundo" where
  "intento_emitidas doc ufActual r w =
     (case fecha_de_emision (fechaEmision doc) of
        Inl m \<Rightarrow> (Some m, r, w)
      | Inr fe \<Rightarrow>
          (let (ts, w0) = leer_reloj w;
               (r', w') = reconciliar_emitida doc (factura_emitida doc ufActual fe ts) r w0
           in (None, r', w')))"

text \<open>One turn of the loop: the try block and its catch.\<close>

definition iteracion_emitidas :: "documento \<Rightarrow> rat \<Rightarrow> resumen \<Rightarrow> mundo \<Rightarrow> resumen \<times> mundo" where
  "iteracion_emitidas doc ufActual r w =
     (case intento_emitidas doc ufActual r w of
        (Some m, r', w') \<Rightarrow> (r'\<lparr>errores := errores r' @ [mensaje_folio doc m]\<rparr>, w')
      | (None, r', w') \<Rightarrow> (r', w'))"

fun bucle_emitidas :: "documento list \<Rightarrow> rat \<Rightarrow> resumen \<Rightarrow> mundo \<Rightarrow> resumen \<times> mundo" where
  "bucle_emitidas [] ufActual r w = (r, w)"
| "bucle_emitidas (doc # docs) ufActual r w =
     (let (r', w') = iteracion_emitidas doc ufActual r w
      in bucle_emitidas docs ufActual r' w')"

definition resumen_inicial :: resumen where
  "resumen_inicial = \<lparr>nuevos = 0, actualizados = 0, errores = []\<rparr>"

definition procesarFacturasEmitidas :: "documento list \<Rightarrow> rat \<Rightarrow> mundo \<Rightarrow> resumen \<times> mundo" where
  "procesarFacturasEmitidas documentos ufActual w = bucle_emitidas documentos ufActual resumen_inicial w"

subsection \<open>procesarFacturasRecibidas\<close>

definition factura_recibida :: "documento \<Rightarrow> rat \<Rightarrow> string option \<Rightarrow> string \<Rightarrow> fila_recibida" where
  "factura_recibida doc ufActual fe ts =
     \<lparr>id_fila = 0,
      numero_folio = folio doc,
      fecha_emision = fe,
      monto_clp = montoTotal doc,
      monto_uf = a_json (calcular_monto_uf (Finito (montoTotal doc)) (Finito ufActual)),
      estado_fila = o_texto (estado doc) ''Recibida'',
      origen = ''SimpleAPI'',
      tipo_documento = tipoDTE doc,
      actualizado_sii = Some ts,
      proveedor = o_texto (razonSocial doc) ''Proveedor'',
      rut_proveedor = rutProveedor doc,
      categoria = ''Servicios''\<rparr>"

definition reconciliar_recibida :: "documento \<Rightarrow> fila_recibida \<Rightarrow> resumen \<Rightarrow> mundo \<Rightarrow> resumen \<times> mundo" where
  "reconciliar_recibida doc factura r w =
     (let (existe, w1) = select_recibidas (folio doc) w
      in (case existe of
            Some i \<Rightarrow>
              (r\<lparr>actualizados := actualizados r + 1\<rparr>,
               update_recibidas i (monto_clp factura) (monto_uf factura) (actualizado_sii factura) w1)
          | None \<Rightarrow>
              (let (error, w2) = insert_recibidas factura w1
               in (case error of
                     Some m \<Rightarrow> (r\<lparr>errores := errores r @ [mensaje_folio doc m]\<rparr>, w2)
                   | None \<Rightarrow> (r\<lparr>nuevos := nuevos r + 1\<rparr>, w2)))))"

definition intento_recibidas :: "documento \<Rightarrow> rat \<Rightarrow> resumen \<Rightarrow> mundo \<Rightarrow> string option \<times> resumen \<times> mundo" where
  "intento_recibidas doc ufActual r w =
     (case fecha_de_emision (fechaEmision doc) of
        Inl m \<Rightarrow> (Some m, r, w)
      | Inr fe \<Rightarrow>
          (let (ts, w0) = leer_reloj w;
               (r', w') = reconciliar_recibida doc (factura_recibida doc ufActual fe ts) r w0
           in (None, r', w')))"

definition iteracion_recibidas :: "documento \<Rightarrow> rat \<Rightarrow> resumen \<Rightarrow> mundo \<Rightarrow> resumen \<times> mundo" where
  "iteracion_recibidas doc ufActual r w =
     (case intento_recibidas doc ufActual r w of
        (Some m, r', w') \<Rightarrow> (r'\<lparr>errores := errores r' @ [mensaje_folio doc m]\<rparr>, w')
      | (None, r', w') \<Rightarrow> (r', w'))"

fun bucle_recibidas :: "documento list \<Rightarrow> rat \<Rightarrow> resumen \<Rightarrow> mundo \<Rightarrow> resumen \<times> mundo" where
  "bucle_recibidas [] ufActual r w = (r, w)"
| "bucle_recibidas (doc # docs) ufActual r w =
     (let (r', w') = iteracion_recibidas doc ufActual r w
      in bucle_recibidas docs ufActual r' w')"

definition procesarFacturasRecibidas :: "documento list \<Rightarrow> rat \<Rightarrow> mundo \<Rightarrow> resumen \<times> mundo" where
  "procesarFacturasRecibidas documentos ufActual w = bucle_recibidas documentos ufActual resumen_inicial w"

section \<open>registrarSync\<close>

definition registrarSync :: "string \<Rightarrow> string \<Rightarrow> resumen \<Rightarrow> string option \<Rightarrow> mundo \<Rightarrow> mundo" where
  "registrarSync tipo periodo resultado userEmail w =
     (let (fl, rest) = siguiente_fallo (fallos_insert w);
          w' = w\<lparr>fallos_insert := rest, traza := traza w @ [LlamadaInsert SiiSyncLog]\<rparr>
      in (case fl of
            SinFallo \<Rightarrow>
              w'\<lparr>sii_sync_log := sii_sync_log w @
                    [\<lparr>tipo_sync = tipo,
                      periodo_sync = periodo,
                      documentos_nuevos = nuevos resultado,
                      documentos_actualizados = actualizados resultado,
                      errores_sync = (if 0 < length (errores resultado)
                                      then Some (js_join ''; '' (errores resultado)) else None),
                      estado_sync = (if 0 < length (errores resultado) then ''parcial'' else ''exitoso''),
                      usuario_email = userEmail\<rparr>]\<rparr>
          | ErrorBD m \<Rightarrow> w'))"

section \<open>The handler\<close>

text \<open>
  The request as the platform delivers it: the method and the parsed body, an object
  whose fields \<^verbatim>\<open>periodo\<close> and \<^verbatim>\<open>userEmail\<close> are strings or missing. The response: the
  status and the body. The three CORS headers, set on every response before anything
  else, are left out.
\<close>

record solicitud =
  metodo :: string
  periodo :: "string option"
  userEmail :: "string option"

record seccion =
  total :: nat
  nuevas :: nat
  actualizadas :: nat
  errores_seccion :: "string list"

record exito =
  periodo_resp :: string
  uf_utilizada :: rat
  emitidas :: seccion
  recibidas :: seccion
  message :: string

datatype cuerpo =
    SinCuerpo
  | CuerpoError string
  | CuerpoFallo string
  | CuerpoExito exito

record respuesta =
  codigo :: nat
  cuerpo_resp :: cuerpo

text \<open>The test of \<^verbatim>\<open>/^\d{4}-\d{2}$/\<close>.\<close>

definition es_digito :: "char \<Rightarrow> bool" where
  "es_digito c = (c \<in> set ''0123456789'')"

definition coincide_periodo :: "string \<Rightarrow> bool" where
  "coincide_periodo p =
     (case p of
        [a, b, c, d, g, m, n] \<Rightarrow>
          es_digito a \<and> es_digito b \<and> es_digito c \<and> es_digito d \<and> g = CHR ''-'' \<and>
          es_digito m \<and> es_digito n
      | _ \<Rightarrow> False)"

definition mensaje_405 :: string where
  "mensaje_405 = ''M'' @ [CHR 0xC3, CHR 0xA9] @ ''todo no permitido''"

definition mensaje_400 :: string where
  "mensaje_400 = ''Par'' @ [CHR 0xC3, CHR 0xA1] @ ''metro '' @ [CHR 0x22] @ ''periodo'' @ [CHR 0x22] @
                 '' requerido (formato: YYYY-MM)''"

definition mensaje_200 :: "nat \<Rightarrow> nat \<Rightarrow> string" where
  "mensaje_200 n a = ''Sincronizaci'' @ [CHR 0xC3, CHR 0xB3] @ ''n completada: '' @ mostrar_nat n @
                     '' nuevas, '' @ mostrar_nat a @ '' actualizadas''"

definition seccion_de :: "documento list \<Rightarrow> resumen \<Rightarrow> seccion" where
  "seccion_de docs r =
     \<lparr>total = length docs, nuevas = nuevos r, actualizadas = actualizados r, errores_seccion = errores r\<rparr>"

text \<open>The two branches of the handler after the fetch.\<close>

definition rama_emitidas :: "documento list \<Rightarrow> rat \<Rightarrow> string \<Rightarrow> string option \<Rightarrow> mundo \<Rightarrow> resumen \<times> mundo" where
  "rama_emitidas ventasArray ufActual p email w =
     (if 0 < length ventasArray
      then (let (res, w1) = procesarFacturasEmitidas ventasArray ufActual w
            in (res, registrarSync ''facturas_emitidas'' p res email w1))
      else (resumen_inicial, w))"

definition rama_recibidas :: "documento list \<Rightarrow> rat \<Rightarrow> string \<Rightarrow> string option \<Rightarrow> mundo \<Rightarrow> resumen \<times> mundo" where
  "rama_recibidas comprasArray ufActual p email w =
     (if 0 < length comprasArray
      then (let (res, w1) = procesarFacturasRecibidas comprasArray ufActual w
            in (res, registrarSync ''facturas_recibidas'' p res email w1))
      else (resumen_inicial, w))"

definition handler :: "solicitud \<Rightarrow> credenciales \<Rightarrow> mundo \<Rightarrow> respuesta \<times> mundo" where
  "handler req cred w =
     (if metodo req = ''OPTIONS'' then (\<lparr>codigo = 200, cuerpo_resp = SinCuerpo\<rparr>, w)
      else if metodo req \<noteq> ''POST'' then (\<lparr>codigo = 405, cuerpo_resp = CuerpoError mensaje_405\<rparr>, w)
      else (case periodo req of
              None \<Rightarrow> (\<lparr>codigo = 400, cuerpo_resp = CuerpoError mensaje_400\<rparr>, w)
            | Some p \<Rightarrow>
                if p = [] \<or> \<not> coincide_periodo p
                then (\<lparr>codigo = 400, cuerpo_resp = CuerpoError mensaje_400\<rparr>, w)
                else
                  (let partes = js_split (CHR ''-'') p;
                       anio = elemento partes 0;
                       mes = elemento partes 1;
                       (ufActual, w1) = getUFActual w;
                       (consulta, w2) = consultarRCV mes anio cred w1
                   in (case consulta of
                         Inl m \<Rightarrow> (\<lparr>codigo = 500, cuerpo_resp = CuerpoFallo m\<rparr>, w2)
                       | Inr datos \<Rightarrow>
                           (let (resultadoEmitidas, w3) =
                                  rama_emitidas (ventas datos) ufActual p (userEmail req) w2;
                                (resultadoRecibidas, w4) =
                                  rama_recibidas (compras datos) ufActual p (userEmail req) w3
                            in (\<lparr>codigo = 200,
                                 cuerpo_resp = CuerpoExito
                                   \<lparr>periodo_resp = p,
                                    uf_utilizada = ufActual,
                                    emitidas = seccion_de (ventas datos) resultadoEmitidas,
                                    recibidas = seccion_de (compras datos) resultadoRecibidas,
                                    message = mensaje_200
                                      (nuevos resultadoEmitidas + nuevos resultadoRecibidas)
                                      (actualizados resultadoEmitidas + actualizados resultadoRecibidas)\<rparr>\<rparr>,
                                w4))))))"

section \<open>Properties of tables and of the environment\<close>

text \<open>At most one row for each pair of a folio and the origin \<^verbatim>\<open>'SimpleAPI'\<close>.\<close>

definition unico_por_folio :: "('a fila_factura_scheme) list \<Rightarrow> bool" where
  "unico_por_folio filas = distinct (map numero_folio (filter (\<lambda>x. origen x = ''SimpleAPI'') filas))"

text \<open>None of the coming calls of one kind fails.\<close>

definition sin_fallos :: "fallo list \<Rightarrow> bool" where
  "sin_fallos fs = list_all (\<lambda>f. f = SinFallo) fs"

text \<open>
  Between two states of a table: every column other than \<open>monto_clp\<close>, \<open>monto_uf\<close> and
  \<open>actualizado_sii\<close> is the same (\<open>more\<close> holds the columns of the counterparty), and a
  row whose id is not \<open>i\<close> is the same row.
\<close>

definition solo_montos_cambian ::
    "nat \<Rightarrow> ('a fila_factura_scheme) list \<Rightarrow> ('a fila_factura_scheme) list \<Rightarrow> bool" where
  "solo_montos_cambian i antes despues \<longleftrightarrow>
     map id_fila despues = map id_fila antes \<and>
     map numero_folio despues = map numero_folio antes \<and>
     map fecha_emision despues = map fecha_emision antes \<and>
     map estado_fila despues = map estado_fila antes \<and>
     map origen despues = map origen antes \<and>
     map tipo_documento despues = map tipo_documento antes \<and>
     map fila_factura.more despues = map fila_factura.more antes \<and>
     (\<forall>k < length antes. id_fila (antes ! k) \<noteq> i \<longrightarrow> despues ! k = antes ! k)"

text \<open>The two arrays \<^verbatim>\<open>consultarRCV\<close> returns for a parsed body.\<close>

definition ventas_de :: "cuerpo_rcv \<Rightarrow> documento list" where
  "ventas_de data = (case detalleVentas data of None \<Rightarrow> [] | Some v \<Rightarrow> v)"

definition compras_de :: "cuerpo_rcv \<Rightarrow> documento list" where
  "compras_de data = (case detalleCompras data of None \<Rightarrow> [] | Some c \<Rightarrow> c)"

text \<open>The world in which the two branches of a valid request start: after the rate lookup and the fetch.\<close>

definition tras_consulta :: "string \<Rightarrow> credenciales \<Rightarrow> mundo \<Rightarrow> mundo" where
  "tras_consulta p cred w =
     snd (consultarRCV (Some (drop 5 p)) (Some (take 4 p)) cred (snd (getUFActual w)))"

section \<open>Example inputs\<close>

definition doc_ejemplo :: documento where
  "doc_ejemplo =
     \<lparr>folio = 100, razonSocial = None, rutCliente = Some ''76123456-7'', rutProveedor = None,
      fechaEmision = FechaTexto ''2026-01-15T10:00:00'', montoTotal = 3800000,
      estado = None, tipoDTE = Some 33\<rparr>"

definition fila_ejemplo :: fila_emitida where
  "fila_ejemplo =
     \<lparr>id_fila = 7, numero_folio = 100, fecha_emision = Some ''2026-01-10'', monto_clp = 1000,
      monto_uf = Some (1 / 38), estado_fila = ''Pagada'', origen = ''SimpleAPI'',
      tipo_documento = Some 33, actualizado_sii = None,
      cliente = ''ACME'', rut_cliente = Some ''76123456-7''\<rparr>"

definition fila_manual :: fila_emitida where
  "fila_manual =
     \<lparr>id_fila = 8, numero_folio = 100, fecha_emision = None, monto_clp = 5,
      monto_uf = None, estado_fila = ''Emitida'', origen = ''Manual'',
      tipo_documento = None, actualizado_sii = None,
      cliente = ''Otro'', rut_cliente = None\<rparr>"

definition mundo_ejemplo :: mundo where
  "mundo_ejemplo =
     \<lparr>facturas_emitidas = [fila_ejemplo, fila_manual],
      facturas_recibidas = [],
      sii_sync_log = [],
      uf_valores = [\<lparr>fecha = 1, valor = Some 37000\<rparr>, \<lparr>fecha = 2, valor = Some 39000\<rparr>],
      fallos_select = [],
      fallos_update = [],
      fallos_insert = [],
      reloj = (\<lambda>n. ''2026-02-01T00:00:00.000Z''),
      lecturas = 0,
      remoto = RespuestaHttp 200 ''{}'' (Inr \<lparr>detalleVentas = Some [doc_ejemplo], detalleCompras = None\<rparr>),
      traza = []\<rparr>"

definition fila_recibida_ejemplo :: fila_recibida where
  "fila_recibida_ejemplo =
     \<lparr>id_fila = 3, numero_folio = 100, fecha_emision = Some ''2026-01-09'', monto_clp = 2000,
      monto_uf = Some (1 / 19), estado_fila = ''Recibida'', origen = ''SimpleAPI'',
      tipo_documento = Some 33, actualizado_sii = None,
      proveedor = ''Proveedora SpA'', rut_proveedor = Some ''77000000-1'', categoria = ''Insumos''\<rparr>"

definition mundo_recibidas :: mundo where
  "mundo_recibidas = mundo_ejemplo\<lparr>facturas_recibidas := [fila_recibida_ejemplo]\<rparr>"


definition solicitud_ejemplo :: solicitud where
  "solicitud_ejemplo = \<lparr>metodo = ''POST'', periodo = Some ''2026-01'', userEmail = Some ''jere@tho.cl''\<rparr>"

definition credenciales_ejemplo :: credenciales where
  "credenciales_ejemplo =
     \<lparr>apiKey = Some ''clave'', rutUsuario = Some ''12345678-9'', passwordSII = Some ''secreto'',
      rutEmpresa = Some ''76123456-7''\<rparr>"

definition mundo_compras :: mundo where
  "mundo_compras =
     mundo_ejemplo\<lparr>remoto := RespuestaHttp 200 ''{}''
        (Inr \<lparr>detalleVentas = Some [], detalleCompras = Some [doc_ejemplo]\<rparr>)\<rparr>"

definition mundo_caido :: mundo where
  "mundo_caido = mundo_ejemplo\<lparr>remoto := RespuestaHttp 503 ''Service Unavailable'' (Inl ''Unexpected token S'')\<rparr>"


section \<open>The summary counts every document once\<close>

lemma iteracion_emitidas_cuenta:
  "iteracion_emitidas doc uf r w = (r', w') \<Longrightarrow>
   nuevos r' + actualizados r' + length (errores r') = Suc (nuevos r + actualizados r + length (errores r))"
  by (auto simp: iteracion_emitidas_def intento_emitidas_def reconciliar_emitida_def Let_def
           split: prod.splits sum.splits option.splits)

lemma bucle_emitidas_cuenta:
  "bucle_emitidas docs uf r w = (r', w') \<Longrightarrow>
   nuevos r' + actualizados r' + length (errores r') =
   nuevos r + actualizados r + length (errores r) + length docs"
proof (induction docs arbitrary: r w)
  case Nil
  then show ?case by simp
next
  case (Cons doc docs)
  obtain r1 w1 where paso: "iteracion_emitidas doc uf r w = (r1, w1)"
    by (cases "iteracion_emitidas doc uf r w")
  with Cons.prems have resto: "bucle_emitidas docs uf r1 w1 = (r', w')"
    by simp
  from Cons.IH [OF resto] iteracion_emitidas_cuenta [OF paso] show ?case
    by simp
qed

lemma iteracion_recibidas_cuenta:
  "iteracion_recibidas doc uf r w = (r', w') \<Longrightarrow>
   nuevos r' + actualizados r' + length (errores r') = Suc (nuevos r + actualizados r + length (errores r))"
  by (auto simp: iteracion_recibidas_def intento_recibidas_def reconciliar_recibida_def Let_def
           split: prod.splits sum.splits option.splits)

lemma bucle_recibidas_cuenta:
  "bucle_recibidas docs uf r w = (r', w') \<Longrightarrow>
   nuevos r' + actualizados r' + length (errores r') =
   nuevos r + actualizados r + length (errores r) + length docs"
proof (induction docs arbitrary: r w)
  case Nil
  then show ?case by simp
next
  case (Cons doc docs)
  obtain r1 w1 where paso: "iteracion_recibidas doc uf r w = (r1, w1)"
    by (cases "iteracion_recibidas doc uf r w")
  with Cons.prems have resto: "bucle_recibidas docs uf r1 w1 = (r', w')"
    by simp
  from Cons.IH [OF resto] iteracion_recibidas_cuenta [OF paso] show ?case
    by simp
qed

text \<open>
  Claim C9. For every sequence of documents, the summary of either reconciler splits the
  input exactly: \<open>nuevos + actualizados + length errores\<close> is the number of documents, so
  each document is counted in one and only one of the three outcomes.
\<close>

theorem resumen_particiona_documentos:
  "nuevos (fst (procesarFacturasEmitidas docs uf w))
     + actualizados (fst (procesarFacturasEmitidas docs uf w))
     + length (errores (fst (procesarFacturasEmitidas docs uf w))) = length docs
   \<and> nuevos (fst (procesarFacturasRecibidas docs uf w))
     + actualizados (fst (procesarFacturasRecibidas docs uf w))
     + length (errores (fst (procesarFacturasRecibidas docs uf w))) = length docs"
proof
  obtain r' w' where e: "bucle_emitidas docs uf resumen_inicial w = (r', w')"
    by (cases "bucle_emitidas docs uf resumen_inicial w")
  from bucle_emitidas_cuenta [OF e] e
  show "nuevos (fst (procesarFacturasEmitidas docs uf w))
     + actualizados (fst (procesarFacturasEmitidas docs uf w))
     + length (errores (fst (procesarFacturasEmitidas docs uf w))) = length docs"
    by (simp add: procesarFacturasEmitidas_def resumen_inicial_def)
next
  obtain r' w' where e: "bucle_recibidas docs uf resumen_inicial w = (r', w')"
    by (cases "bucle_recibidas docs uf resumen_inicial w")
  from bucle_recibidas_cuenta [OF e] e
  show "nuevos (fst (procesarFacturasRecibidas docs uf w))
     + actualizados (fst (procesarFacturasRecibidas docs uf w))
     + length (errores (fst (procesarFacturasRecibidas docs uf w))) = length docs"
    by (simp add: procesarFacturasRecibidas_def resumen_inicial_def)
qed

section \<open>The derived amount\<close>

text \<open>
  Claim C6. The specification gives the stored \<open>monto_uf\<close> as \<open>T / R\<close> rounded to two
  decimal places. The code rounds the binary64 product \<open>(T / R) * 100\<close>, which differs
  from the exact one near a tie. For \<open>T = 21850\<close> and \<open>R = 38000\<close> the quotient is exactly
  \<open>0.575\<close>, whose rounded value is \<open>0.58\<close>; the binary64 product is below \<open>57.5\<close> and the
  code stores \<open>0.57\<close> (the binary64 value nearest to it), in the row a reconciler inserts
  as well. Nor does the code round the binary64 quotient: for \<open>T = 570\<close> that quotient is
  below \<open>0.015\<close>, so it rounds to \<open>0.01\<close>, while the binary64 product is \<open>1.5\<close> and the code
  gives \<open>0.02\<close>. The example of the specification, \<open>T = 3800000\<close> and \<open>R = 38000\<close>, gives
  \<open>100\<close>.
\<close>

theorem monto_uf_empate_redondea_abajo:
  "calcular_monto_uf (Finito 21850) (Finito 38000) = a_doble (57 / 100)
   \<and> redondeo_2_decimales (21850 / 38000) = 58 / 100
   \<and> multiplicar (dividir (Finito 21850) (Finito 38000)) (Finito 100)
       = Finito (8092405580431359 / 140737488355328)
   \<and> (8092405580431359 / 140737488355328 :: rat) < 575 / 10
   \<and> a_doble (57 / 100) = Finito (5134103575202365 / 9007199254740992)
   \<and> a_doble (58 / 100) = Finito (5224175567749775 / 9007199254740992)
   \<and> map monto_uf (facturas_recibidas (snd (procesarFacturasRecibidas
        [doc_ejemplo\<lparr>montoTotal := 21850\<rparr>] 38000 mundo_ejemplo)))
       = [Some (5134103575202365 / 9007199254740992)]
   \<and> dividir (Finito 570) (Finito 38000) = Finito (1080863910568919 / 72057594037927936)
   \<and> (1080863910568919 / 72057594037927936 :: rat) < 15 / 1000
   \<and> redondeo_2_decimales (1080863910568919 / 72057594037927936) = 1 / 100
   \<and> calcular_monto_uf (Finito 570) (Finito 38000) = a_doble (2 / 100)
   \<and> a_doble (1 / 100) \<noteq> a_doble (2 / 100)
   \<and> calcular_monto_uf (Finito 3800000) (Finito 38000) = Finito 100"
  by code_simp

section \<open>One row for each folio\<close>

lemma sin_fallos_siguiente:
  "sin_fallos fs \<Longrightarrow> fst (siguiente_fallo fs) = SinFallo \<and> sin_fallos (snd (siguiente_fallo fs))"
  by (cases fs) (simp_all add: sin_fallos_def siguiente_fallo_def)

lemma filtro_distinto:
  "distinct (map g xs) \<Longrightarrow> filter (\<lambda>x. g x = f) xs = [] \<or> (\<exists>x. filter (\<lambda>x. g x = f) xs = [x])"
proof (induction xs)
  case Nil
  then show ?case by simp
next
  case (Cons a xs)
  show ?case
  proof (cases "g a = f")
    case True
    with Cons.prems have "f \<notin> g ` set xs" by auto
    then have "filter (\<lambda>x. g x = f) xs = []"
      by (auto simp: filter_empty_conv)
    with True show ?thesis by simp
  next
    case False
    with Cons show ?thesis by simp
  qed
qed

lemma coincidencias_filtro:
  "coincidencias f filas =
   filter (\<lambda>x. numero_folio x = f) (filter (\<lambda>x. origen x = ''SimpleAPI'') filas)"
  by (simp add: coincidencias_def conj_commute)

lemma buscar_unico_None:
  assumes "unico_por_folio filas" and "buscar_unico f filas = None"
  shows "coincidencias f filas = []"
proof -
  from assms(1) have "distinct (map numero_folio (filter (\<lambda>x. origen x = ''SimpleAPI'') filas))"
    by (simp add: unico_por_folio_def)
  from filtro_distinto [OF this, of f]
  have "coincidencias f filas = [] \<or> (\<exists>x. coincidencias f filas = [x])"
    by (simp add: coincidencias_filtro)
  with assms(2) show ?thesis
    by (auto simp: buscar_unico_def)
qed

lemma unico_insert:
  assumes "unico_por_folio filas" and "coincidencias (numero_folio x) filas = []"
  shows "unico_por_folio (filas @ [x])"
proof -
  from assms(2) have "\<forall>y \<in> set filas. origen y = ''SimpleAPI'' \<longrightarrow> numero_folio y \<noteq> numero_folio x"
    by (auto simp: coincidencias_def filter_empty_conv)
  with assms(1) show ?thesis
    by (auto simp: unico_por_folio_def)
qed

lemma unico_update:
  "unico_por_folio (aplicar_update i clp uf ts filas) = unico_por_folio filas"
proof -
  have "map numero_folio (filter (\<lambda>x. origen x = ''SimpleAPI'') (aplicar_update i clp uf ts filas)) =
        map numero_folio (filter (\<lambda>x. origen x = ''SimpleAPI'') filas)"
    by (induction filas) (simp_all add: aplicar_update_def actualizar_fila_def)
  then show ?thesis by (simp add: unico_por_folio_def)
qed

lemma iteracion_emitidas_unico:
  assumes "unico_por_folio (facturas_emitidas w)" and "sin_fallos (fallos_select w)"
      and "iteracion_emitidas doc uf r w = (r', w')"
  shows "unico_por_folio (facturas_emitidas w') \<and> sin_fallos (fallos_select w')"
proof (cases "fecha_de_emision (fechaEmision doc)")
  case (Inl m)
  with assms show ?thesis
    by (simp add: iteracion_emitidas_def intento_emitidas_def)
next
  case (Inr fe)
  from sin_fallos_siguiente [OF assms(2)] obtain rest where
    sf: "siguiente_fallo (fallos_select w) = (SinFallo, rest)" and sr: "sin_fallos rest"
    by (cases "siguiente_fallo (fallos_select w)") auto
  show ?thesis
  proof (cases "buscar_unico (folio doc) (facturas_emitidas w)")
    case None
    from buscar_unico_None [OF assms(1) None]
    have vacio: "coincidencias (folio doc) (facturas_emitidas w) = []" .
    have "unico_por_folio (facturas_emitidas w @
            [(factura_emitida doc uf fe (reloj w (lecturas w)))\<lparr>id_fila := id_nuevo (facturas_emitidas w)\<rparr>])"
      by (rule unico_insert [OF assms(1)]) (simp add: factura_emitida_def vacio)
    with assms Inr sf sr None show ?thesis
      by (auto simp: iteracion_emitidas_def intento_emitidas_def reconciliar_emitida_def
            select_emitidas_def insert_emitidas_def leer_reloj_def Let_def
            split: prod.splits fallo.splits)
  next
    case (Some i)
    with assms Inr sf sr show ?thesis
      by (auto simp: iteracion_emitidas_def intento_emitidas_def reconciliar_emitida_def
            select_emitidas_def update_emitidas_def leer_reloj_def Let_def unico_update
            split: prod.splits fallo.splits)
  qed
qed

lemma bucle_emitidas_unico:
  "unico_por_folio (facturas_emitidas w) \<Longrightarrow> sin_fallos (fallos_select w) \<Longrightarrow>
   bucle_emitidas docs uf r w = (r', w') \<Longrightarrow>
   unico_por_folio (facturas_emitidas w') \<and> sin_fallos (fallos_select w')"
proof (induction docs arbitrary: r w)
  case Nil
  then show ?case by simp
next
  case (Cons doc docs)
  obtain r1 w1 where paso: "iteracion_emitidas doc uf r w = (r1, w1)"
    by (cases "iteracion_emitidas doc uf r w")
  with Cons.prems have resto: "bucle_emitidas docs uf r1 w1 = (r', w')"
    by simp
  from iteracion_emitidas_unico [OF Cons.prems(1,2) paso] Cons.IH [OF _ _ resto]
  show ?case by blast
qed

lemma iteracion_recibidas_unico:
  assumes "unico_por_folio (facturas_recibidas w)" and "sin_fallos (fallos_select w)"
      and "iteracion_recibidas doc uf r w = (r', w')"
  shows "unico_por_folio (facturas_recibidas w') \<and> sin_fallos (fallos_select w')"
proof (cases "fecha_de_emision (fechaEmision doc)")
  case (Inl m)
  with assms show ?thesis
    by (simp add: iteracion_recibidas_def intento_recibidas_def)
next
  case (Inr fe)
  from sin_fallos_siguiente [OF assms(2)] obtain rest where
    sf: "siguiente_fallo (fallos_select w) = (SinFallo, rest)" and sr: "sin_fallos rest"
    by (cases "siguiente_fallo (fallos_select w)") auto
  show ?thesis
  proof (cases "buscar_unico (folio doc) (facturas_recibidas w)")
    case None
    from buscar_unico_None [OF assms(1) None]
    have vacio: "coincidencias (folio doc) (facturas_recibidas w) = []" .
    have "unico_por_folio (facturas_recibidas w @
            [(factura_recibida doc uf fe (reloj w (lecturas w)))\<lparr>id_fila := id_nuevo (facturas_recibidas w)\<rparr>])"
      by (rule unico_insert [OF assms(1)]) (simp add: factura_recibida_def vacio)
    with assms Inr sf sr None show ?thesis
      by (auto simp: iteracion_recibidas_def intento_recibidas_def reconciliar_recibida_def
            select_recibidas_def insert_recibidas_def leer_reloj_def Let_def
            split: prod.splits fallo.splits)
  next
    case (Some i)
    with assms Inr sf sr show ?thesis
      by (auto simp: iteracion_recibidas_def intento_recibidas_def reconciliar_recibida_def
            select_recibidas_def update_recibidas_def leer_reloj_def Let_def unico_update
            split: prod.splits fallo.splits)
  qed
qed

lemma bucle_recibidas_unico:
  "unico_por_folio (facturas_recibidas w) \<Longrightarrow> sin_fallos (fallos_select w) \<Longrightarrow>
   bucle_recibidas docs uf r w = (r', w') \<Longrightarrow>
   unico_por_folio (facturas_recibidas w') \<and> sin_fallos (fallos_select w')"
proof (induction docs arbitrary: r w)
  case Nil
  then show ?case by simp
next
  case (Cons doc docs)
  obtain r1 w1 where paso: "iteracion_recibidas doc uf r w = (r1, w1)"
    by (cases "iteracion_recibidas doc uf r w")
  with Cons.prems have resto: "bucle_recibidas docs uf r1 w1 = (r', w')"
    by simp
  from iteracion_recibidas_unico [OF Cons.prems(1,2) paso] Cons.IH [OF _ _ resto]
  show ?case by blast
qed

lemma iteracion_emitidas_sin_fallos:
  assumes "sin_fallos (fallos_select w)" and "iteracion_emitidas doc uf r w = (r', w')"
  shows "sin_fallos (fallos_select w')"
  using sin_fallos_siguiente [OF assms(1)] assms
  by (auto simp: iteracion_emitidas_def intento_emitidas_def reconciliar_emitida_def
        select_emitidas_def update_emitidas_def insert_emitidas_def leer_reloj_def Let_def
        split: prod.splits fallo.splits sum.splits option.splits)

lemma bucle_emitidas_sin_fallos:
  "sin_fallos (fallos_select w) \<Longrightarrow> bucle_emitidas docs uf r w = (r', w') \<Longrightarrow>
   sin_fallos (fallos_select w')"
proof (induction docs arbitrary: r w)
  case Nil
  then show ?case by simp
next
  case (Cons doc docs)
  obtain r1 w1 where paso: "iteracion_emitidas doc uf r w = (r1, w1)"
    by (cases "iteracion_emitidas doc uf r w")
  with Cons.prems have resto: "bucle_emitidas docs uf r1 w1 = (r', w')"
    by simp
  from iteracion_emitidas_sin_fallos [OF Cons.prems(1) paso] resto show ?case
    by (rule Cons.IH)
qed

lemma iteracion_recibidas_sin_fallos:
  assumes "sin_fallos (fallos_select w)" and "iteracion_recibidas doc uf r w = (r', w')"
  shows "sin_fallos (fallos_select w')"
  using sin_fallos_siguiente [OF assms(1)] assms
  by (auto simp: iteracion_recibidas_def intento_recibidas_def reconciliar_recibida_def
        select_recibidas_def update_recibidas_def insert_recibidas_def leer_reloj_def Let_def
        split: prod.splits fallo.splits sum.splits option.splits)

lemma bucle_recibidas_sin_fallos:
  "sin_fallos (fallos_select w) \<Longrightarrow> bucle_recibidas docs uf r w = (r', w') \<Longrightarrow>
   sin_fallos (fallos_select w')"
proof (induction docs arbitrary: r w)
  case Nil
  then show ?case by simp
next
  case (Cons doc docs)
  obtain r1 w1 where paso: "iteracion_recibidas doc uf r w = (r1, w1)"
    by (cases "iteracion_recibidas doc uf r w")
  with Cons.prems have resto: "bucle_recibidas docs uf r1 w1 = (r', w')"
    by simp
  from iteracion_recibidas_sin_fallos [OF Cons.prems(1) paso] resto show ?case
    by (rule Cons.IH)
qed

lemma iteracion_emitidas_filas:
  "iteracion_emitidas doc uf r w = (r', w') \<Longrightarrow>
   length (facturas_emitidas w') + nuevos r = length (facturas_emitidas w) + nuevos r'"
  by (auto simp: iteracion_emitidas_def intento_emitidas_def reconciliar_emitida_def
        select_emitidas_def update_emitidas_def insert_emitidas_def leer_reloj_def Let_def
        aplicar_update_def
        split: prod.splits fallo.splits sum.splits option.splits)

lemma bucle_emitidas_filas:
  "bucle_emitidas docs uf r w = (r', w') \<Longrightarrow>
   length (facturas_emitidas w') + nuevos r = length (facturas_emitidas w) + nuevos r'"
proof (induction docs arbitrary: r w)
  case Nil
  then show ?case by simp
next
  case (Cons doc docs)
  obtain r1 w1 where paso: "iteracion_emitidas doc uf r w = (r1, w1)"
    by (cases "iteracion_emitidas doc uf r w")
  with Cons.prems have resto: "bucle_emitidas docs uf r1 w1 = (r', w')"
    by simp
  from iteracion_emitidas_filas [OF paso] Cons.IH [OF resto] show ?case
    by simp
qed

lemma iteracion_recibidas_filas:
  "iteracion_recibidas doc uf r w = (r', w') \<Longrightarrow>
   length (facturas_recibidas w') + nuevos r = length (facturas_recibidas w) + nuevos r'"
  by (auto simp: iteracion_recibidas_def intento_recibidas_def reconciliar_recibida_def
        select_recibidas_def update_recibidas_def insert_recibidas_def leer_reloj_def Let_def
        aplicar_update_def
        split: prod.splits fallo.splits sum.splits option.splits)

lemma bucle_recibidas_filas:
  "bucle_recibidas docs uf r w = (r', w') \<Longrightarrow>
   length (facturas_recibidas w') + nuevos r = length (facturas_recibidas w) + nuevos r'"
proof (induction docs arbitrary: r w)
  case Nil
  then show ?case by simp
next
  case (Cons doc docs)
  obtain r1 w1 where paso: "iteracion_recibidas doc uf r w = (r1, w1)"
    by (cases "iteracion_recibidas doc uf r w")
  with Cons.prems have resto: "bucle_recibidas docs uf r1 w1 = (r', w')"
    by simp
  from iteracion_recibidas_filas [OF paso] Cons.IH [OF resto] show ?case
    by simp
qed

text \<open>
  Claim C1, as stated, fails: a lookup that the datastore answers with an error is
  taken for "no row", and the row is inserted a second time. Here the table holds one
  row for folio 100 with the origin \<^verbatim>\<open>'SimpleAPI'\<close>, the lookup of the run fails, and the
  table ends with two such rows.
\<close>

theorem consulta_fallida_duplica_folio:
  "unico_por_folio (facturas_emitidas (mundo_ejemplo\<lparr>fallos_select := [ErrorBD ''timeout'']\<rparr>))
   \<and> \<not> unico_por_folio (facturas_emitidas (snd (procesarFacturasEmitidas [doc_ejemplo] 38000
          (mundo_ejemplo\<lparr>fallos_select := [ErrorBD ''timeout'']\<rparr>))))
   \<and> map numero_folio (filter (\<lambda>x. origen x = ''SimpleAPI'')
        (facturas_emitidas (snd (procesarFacturasEmitidas [doc_ejemplo] 38000
          (mundo_ejemplo\<lparr>fallos_select := [ErrorBD ''timeout'']\<rparr>))))) = [100, 100]"
  by code_simp

text \<open>
  Claim C1, amended. When every lookup of the run is answered without error, either
  reconciler keeps the property that the table has at most one row for each folio with
  the origin \<^verbatim>\<open>'SimpleAPI'\<close>, for every table with the property and every sequence of
  documents (a folio met again, in this run or a later one, is updated and not inserted);
  the lookups left for a later run are still answered without error; and the rows added
  to the table are as many as the documents counted in \<open>nuevos\<close>.
\<close>

theorem reconciliador_preserva_unico_por_folio:
  assumes "sin_fallos (fallos_select w)"
  shows "(unico_por_folio (facturas_emitidas w) \<longrightarrow>
            unico_por_folio (facturas_emitidas (snd (procesarFacturasEmitidas docs uf w))))
       \<and> (unico_por_folio (facturas_recibidas w) \<longrightarrow>
            unico_por_folio (facturas_recibidas (snd (procesarFacturasRecibidas docs uf w))))
       \<and> sin_fallos (fallos_select (snd (procesarFacturasEmitidas docs uf w)))
       \<and> sin_fallos (fallos_select (snd (procesarFacturasRecibidas docs uf w)))
       \<and> length (facturas_emitidas (snd (procesarFacturasEmitidas docs uf w))) =
           length (facturas_emitidas w) + nuevos (fst (procesarFacturasEmitidas docs uf w))
       \<and> length (facturas_recibidas (snd (procesarFacturasRecibidas docs uf w))) =
           length (facturas_recibidas w) + nuevos (fst (procesarFacturasRecibidas docs uf w))"
proof -
  obtain r1 w1 where e: "bucle_emitidas docs uf resumen_inicial w = (r1, w1)"
    by (cases "bucle_emitidas docs uf resumen_inicial w")
  obtain r2 w2 where c: "bucle_recibidas docs uf resumen_inicial w = (r2, w2)"
    by (cases "bucle_recibidas docs uf resumen_inicial w")
  have a: "unico_por_folio (facturas_emitidas w) \<Longrightarrow> unico_por_folio (facturas_emitidas w1)"
    using bucle_emitidas_unico [OF _ assms e] by simp
  have b: "unico_por_folio (facturas_recibidas w) \<Longrightarrow> unico_por_folio (facturas_recibidas w2)"
    using bucle_recibidas_unico [OF _ assms c] by simp
  have s1: "sin_fallos (fallos_select w1)"
    by (rule bucle_emitidas_sin_fallos [OF assms e])
  have s2: "sin_fallos (fallos_select w2)"
    by (rule bucle_recibidas_sin_fallos [OF assms c])
  from bucle_emitidas_filas [OF e]
  have l1: "length (facturas_emitidas w1) = length (facturas_emitidas w) + nuevos r1"
    by (simp add: resumen_inicial_def)
  from bucle_recibidas_filas [OF c]
  have l2: "length (facturas_recibidas w2) = length (facturas_recibidas w) + nuevos r2"
    by (simp add: resumen_inicial_def)
  from a b s1 s2 l1 l2 e c show ?thesis
    by (simp add: procesarFacturasEmitidas_def procesarFacturasRecibidas_def)
qed

theorem reconciliador_preserva_unico_por_folio_testigo:
  "sin_fallos (fallos_select mundo_ejemplo)
   \<and> unico_por_folio (facturas_emitidas mundo_ejemplo)
   \<and> unico_por_folio (facturas_recibidas mundo_ejemplo)
   \<and> unico_por_folio (facturas_emitidas (snd (procesarFacturasEmitidas
        [doc_ejemplo, doc_ejemplo\<lparr>folio := 101\<rparr>, doc_ejemplo\<lparr>folio := 101\<rparr>] 38000 mundo_ejemplo)))
   \<and> unico_por_folio (facturas_recibidas (snd (procesarFacturasRecibidas
        [doc_ejemplo, doc_ejemplo\<lparr>folio := 101\<rparr>, doc_ejemplo\<lparr>folio := 101\<rparr>] 38000 mundo_ejemplo)))
   \<and> map numero_folio (facturas_emitidas (snd (procesarFacturasEmitidas
        [doc_ejemplo, doc_ejemplo\<lparr>folio := 101\<rparr>, doc_ejemplo\<lparr>folio := 101\<rparr>] 38000 mundo_ejemplo)))
       = [100, 100, 101]"
proof -
  have h: "sin_fallos (fallos_select mundo_ejemplo)"
    by code_simp
  have e: "unico_por_folio (facturas_emitidas mundo_ejemplo)"
    by code_simp
  have c: "unico_por_folio (facturas_recibidas mundo_ejemplo)"
    by code_simp
  have f: "map numero_folio (facturas_emitidas (snd (procesarFacturasEmitidas
        [doc_ejemplo, doc_ejemplo\<lparr>folio := 101\<rparr>, doc_ejemplo\<lparr>folio := 101\<rparr>] 38000 mundo_ejemplo)))
       = [100, 100, 101]"
    by code_simp
  from reconciliador_preserva_unico_por_folio
         [OF h, of "[doc_ejemplo, doc_ejemplo\<lparr>folio := 101\<rparr>, doc_ejemplo\<lparr>folio := 101\<rparr>]" 38000]
       h e c f
  show ?thesis by simp
qed

section \<open>The update path\<close>

lemma fecha_ok:
  "c \<noteq> FechaOtroTipo \<Longrightarrow> \<exists>fe. fecha_de_emision c = Inr fe"
  by (cases c) (auto simp: fecha_de_emision_def split: option.splits)

lemma buscar_unico_Some:
  "coincidencias f filas = [x] \<Longrightarrow> buscar_unico f filas = Some (id_fila x)"
  by (simp add: buscar_unico_def)

lemma aplicar_update_columnas:
  "length (aplicar_update i clp uf ts filas) = length filas"
  "map id_fila (aplicar_update i clp uf ts filas) = map id_fila filas"
  "map numero_folio (aplicar_update i clp uf ts filas) = map numero_folio filas"
  "map fecha_emision (aplicar_update i clp uf ts filas) = map fecha_emision filas"
  "map estado_fila (aplicar_update i clp uf ts filas) = map estado_fila filas"
  "map origen (aplicar_update i clp uf ts filas) = map origen filas"
  "map tipo_documento (aplicar_update i clp uf ts filas) = map tipo_documento filas"
  "map fila_factura.more (aplicar_update i clp uf ts filas) = map fila_factura.more filas"
  by (simp_all add: aplicar_update_def actualizar_fila_def)

lemma aplicar_update_columnas_emitida:
  "map cliente (aplicar_update i clp uf ts filas) = map cliente filas"
  "map rut_cliente (aplicar_update i clp uf ts filas) = map rut_cliente filas"
  by (simp_all add: aplicar_update_def actualizar_fila_def)

lemma aplicar_update_columnas_recibida:
  "map proveedor (aplicar_update i clp uf ts filas) = map proveedor filas"
  "map rut_proveedor (aplicar_update i clp uf ts filas) = map rut_proveedor filas"
  "map categoria (aplicar_update i clp uf ts filas) = map categoria filas"
  by (simp_all add: aplicar_update_def actualizar_fila_def)

lemma aplicar_update_otras:
  "k < length filas \<Longrightarrow> id_fila (filas ! k) \<noteq> i \<Longrightarrow> aplicar_update i clp uf ts filas ! k = filas ! k"
  by (simp add: aplicar_update_def)

lemma aplicar_update_esa:
  "k < length filas \<Longrightarrow> id_fila (filas ! k) = i \<Longrightarrow>
   monto_clp (aplicar_update i clp uf ts filas ! k) = clp \<and>
   monto_uf (aplicar_update i clp uf ts filas ! k) = uf \<and>
   actualizado_sii (aplicar_update i clp uf ts filas ! k) = ts"
  by (simp add: aplicar_update_def actualizar_fila_def)

lemma distinct_id_misma_fila:
  assumes "distinct (map id_fila filas)" and "x \<in> set filas" and "k < length filas"
      and "id_fila (filas ! k) = id_fila x"
  shows "filas ! k = x"
proof -
  from assms(2) obtain j where j: "j < length filas" "filas ! j = x"
    by (auto simp: in_set_conv_nth)
  from nth_eq_iff_index_eq [OF assms(1), of k j] assms(3,4) j have "k = j"
    by simp
  with j(2) show ?thesis by simp
qed

lemma coincidencias_en_tabla:
  "coincidencias f filas = [x] \<Longrightarrow> x \<in> set filas \<and> numero_folio x = f \<and> origen x = ''SimpleAPI''"
proof -
  assume "coincidencias f filas = [x]"
  then have "x \<in> set (filter (\<lambda>x. numero_folio x = f \<and> origen x = ''SimpleAPI'') filas)"
    by (simp add: coincidencias_def)
  then show ?thesis by simp
qed

lemma solo_montos_refl: "solo_montos_cambian i filas filas"
  by (simp add: solo_montos_cambian_def)

lemma solo_montos_update: "solo_montos_cambian i filas (aplicar_update i clp uf ts filas)"
  by (simp add: solo_montos_cambian_def aplicar_update_columnas aplicar_update_otras)

lemma select_emitidas_tras_reloj:
  "fst (select_emitidas f (snd (leer_reloj w))) = fst (select_emitidas f w)"
  by (simp add: select_emitidas_def leer_reloj_def Let_def split: prod.splits fallo.splits)

lemma select_recibidas_tras_reloj:
  "fst (select_recibidas f (snd (leer_reloj w))) = fst (select_recibidas f w)"
  by (simp add: select_recibidas_def leer_reloj_def Let_def split: prod.splits fallo.splits)

lemma select_emitidas_encuentra:
  assumes "fst (siguiente_fallo (fallos_select w)) = SinFallo"
      and "coincidencias f (facturas_emitidas w) = [x]"
  shows "fst (select_emitidas f w) = Some (id_fila x)"
  using assms
  by (auto simp: select_emitidas_def Let_def buscar_unico_def split: prod.splits)

lemma select_recibidas_encuentra:
  assumes "fst (siguiente_fallo (fallos_select w)) = SinFallo"
      and "coincidencias f (facturas_recibidas w) = [x]"
  shows "fst (select_recibidas f w) = Some (id_fila x)"
  using assms
  by (auto simp: select_recibidas_def Let_def buscar_unico_def split: prod.splits)

text \<open>What one turn does once the lookup has found the row \<open>i\<close>.\<close>

lemma iteracion_emitidas_encontrada:
  assumes fe: "fechaEmision doc \<noteq> FechaOtroTipo"
      and se: "fst (select_emitidas (folio doc) w) = Some i"
      and it: "iteracion_emitidas doc uf r w = (r', w')"
  shows "r' = r\<lparr>actualizados := actualizados r + 1\<rparr>"
    and "facturas_emitidas w' =
           (case fst (siguiente_fallo (fallos_update w)) of
              SinFallo \<Rightarrow> aplicar_update i (montoTotal doc)
                            (a_json (calcular_monto_uf (Finito (montoTotal doc)) (Finito uf)))
                            (Some (reloj w (lecturas w))) (facturas_emitidas w)
            | ErrorBD m \<Rightarrow> facturas_emitidas w)"
    and "facturas_recibidas w' = facturas_recibidas w"
    and "sii_sync_log w' = sii_sync_log w"
proof -
  from fecha_ok [OF fe] obtain f where f: "fecha_de_emision (fechaEmision doc) = Inr f" ..
  from se have s: "fst (select_emitidas (folio doc) (snd (leer_reloj w))) = Some i"
    by (simp add: select_emitidas_tras_reloj)
  obtain w1 where w1: "select_emitidas (folio doc) (snd (leer_reloj w)) = (Some i, w1)"
    using s by (cases "select_emitidas (folio doc) (snd (leer_reloj w))") simp
  from w1 have m1: "facturas_emitidas w1 = facturas_emitidas w" "fallos_update w1 = fallos_update w"
      "facturas_recibidas w1 = facturas_recibidas w" "sii_sync_log w1 = sii_sync_log w"
    by (auto simp: select_emitidas_def leer_reloj_def Let_def split: prod.splits fallo.splits)
  from it f w1 have r: "r' = r\<lparr>actualizados := actualizados r + 1\<rparr>"
    and w: "w' = update_emitidas i (montoTotal doc)
                   (a_json (calcular_monto_uf (Finito (montoTotal doc)) (Finito uf)))
                   (Some (reloj w (lecturas w))) w1"
    by (auto simp: iteracion_emitidas_def intento_emitidas_def reconciliar_emitida_def
          factura_emitida_def leer_reloj_def Let_def split: prod.splits)
  show "r' = r\<lparr>actualizados := actualizados r + 1\<rparr>" by (rule r)
  from w m1 show "facturas_emitidas w' =
           (case fst (siguiente_fallo (fallos_update w)) of
              SinFallo \<Rightarrow> aplicar_update i (montoTotal doc)
                            (a_json (calcular_monto_uf (Finito (montoTotal doc)) (Finito uf)))
                            (Some (reloj w (lecturas w))) (facturas_emitidas w)
            | ErrorBD m \<Rightarrow> facturas_emitidas w)"
    by (auto simp: update_emitidas_def Let_def split: prod.splits fallo.splits)
  from w m1 show "facturas_recibidas w' = facturas_recibidas w"
    by (auto simp: update_emitidas_def Let_def split: prod.splits fallo.splits)
  from w m1 show "sii_sync_log w' = sii_sync_log w"
    by (auto simp: update_emitidas_def Let_def split: prod.splits fallo.splits)
qed

lemma iteracion_recibidas_encontrada:
  assumes fe: "fechaEmision doc \<noteq> FechaOtroTipo"
      and se: "fst (select_recibidas (folio doc) w) = Some i"
      and it: "iteracion_recibidas doc uf r w = (r', w')"
  shows "r' = r\<lparr>actualizados := actualizados r + 1\<rparr>"
    and "facturas_recibidas w' =
           (case fst (siguiente_fallo (fallos_update w)) of
              SinFallo \<Rightarrow> aplicar_update i (montoTotal doc)
                            (a_json (calcular_monto_uf (Finito (montoTotal doc)) (Finito uf)))
                            (Some (reloj w (lecturas w))) (facturas_recibidas w)
            | ErrorBD m \<Rightarrow> facturas_recibidas w)"
    and "facturas_emitidas w' = facturas_emitidas w"
    and "sii_sync_log w' = sii_sync_log w"
proof -
  from fecha_ok [OF fe] obtain f where f: "fecha_de_emision (fechaEmision doc) = Inr f" ..
  from se have s: "fst (select_recibidas (folio doc) (snd (leer_reloj w))) = Some i"
    by (simp add: select_recibidas_tras_reloj)
  obtain w1 where w1: "select_recibidas (folio doc) (snd (leer_reloj w)) = (Some i, w1)"
    using s by (cases "select_recibidas (folio doc) (snd (leer_reloj w))") simp
  from w1 have m1: "facturas_recibidas w1 = facturas_recibidas w" "fallos_update w1 = fallos_update w"
      "facturas_emitidas w1 = facturas_emitidas w" "sii_sync_log w1 = sii_sync_log w"
    by (auto simp: select_recibidas_def leer_reloj_def Let_def split: prod.splits fallo.splits)
  from it f w1 have r: "r' = r\<lparr>actualizados := actualizados r + 1\<rparr>"
    and w: "w' = update_recibidas i (montoTotal doc)
                   (a_json (calcular_monto_uf (Finito (montoTotal doc)) (Finito uf)))
                   (Some (reloj w (lecturas w))) w1"
    by (auto simp: iteracion_recibidas_def intento_recibidas_def reconciliar_recibida_def
          factura_recibida_def leer_reloj_def Let_def split: prod.splits)
  show "r' = r\<lparr>actualizados := actualizados r + 1\<rparr>" by (rule r)
  from w m1 show "facturas_recibidas w' =
           (case fst (siguiente_fallo (fallos_update w)) of
              SinFallo \<Rightarrow> aplicar_update i (montoTotal doc)
                            (a_json (calcular_monto_uf (Finito (montoTotal doc)) (Finito uf)))
                            (Some (reloj w (lecturas w))) (facturas_recibidas w)
            | ErrorBD m \<Rightarrow> facturas_recibidas w)"
    by (auto simp: update_recibidas_def Let_def split: prod.splits fallo.splits)
  from w m1 show "facturas_emitidas w' = facturas_emitidas w"
    by (auto simp: update_recibidas_def Let_def split: prod.splits fallo.splits)
  from w m1 show "sii_sync_log w' = sii_sync_log w"
    by (auto simp: update_recibidas_def Let_def split: prod.splits fallo.splits)
qed

lemma actualiza_solo_montos_emitidas:
  assumes fe: "fechaEmision doc \<noteq> FechaOtroTipo"
      and sf: "fst (siguiente_fallo (fallos_select w)) = SinFallo"
      and co: "coincidencias (folio doc) (facturas_emitidas w) = [fila]"
      and it: "iteracion_emitidas doc uf r w = (r', w')"
  shows "nuevos r' = nuevos r \<and> actualizados r' = actualizados r + 1 \<and> errores r' = errores r
       \<and> solo_montos_cambian (id_fila fila) (facturas_emitidas w) (facturas_emitidas w')
       \<and> map cliente (facturas_emitidas w') = map cliente (facturas_emitidas w)
       \<and> map rut_cliente (facturas_emitidas w') = map rut_cliente (facturas_emitidas w)
       \<and> (distinct (map id_fila (facturas_emitidas w)) \<longrightarrow>
            (\<forall>k < length (facturas_emitidas w).
               facturas_emitidas w ! k \<noteq> fila \<longrightarrow> facturas_emitidas w' ! k = facturas_emitidas w ! k))
       \<and> (fst (siguiente_fallo (fallos_update w)) = SinFallo \<longrightarrow>
            (\<forall>k < length (facturas_emitidas w).
               id_fila (facturas_emitidas w ! k) = id_fila fila \<longrightarrow>
                 monto_clp (facturas_emitidas w' ! k) = montoTotal doc \<and>
                 monto_uf (facturas_emitidas w' ! k) =
                   a_json (calcular_monto_uf (Finito (montoTotal doc)) (Finito uf)) \<and>
                 actualizado_sii (facturas_emitidas w' ! k) = Some (reloj w (lecturas w))))
       \<and> facturas_recibidas w' = facturas_recibidas w
       \<and> sii_sync_log w' = sii_sync_log w"
proof -
  let ?T = "facturas_emitidas w"
  let ?U = "aplicar_update (id_fila fila) (montoTotal doc)
              (a_json (calcular_monto_uf (Finito (montoTotal doc)) (Finito uf)))
              (Some (reloj w (lecturas w))) ?T"
  note se = select_emitidas_encuentra [OF sf co]
  note enc = iteracion_emitidas_encontrada [OF fe se it]
  from enc(1) have cuenta: "nuevos r' = nuevos r \<and> actualizados r' = actualizados r + 1 \<and> errores r' = errores r"
    by simp
  from enc(2) have casos: "facturas_emitidas w' = ?T \<or>
      (fst (siguiente_fallo (fallos_update w)) = SinFallo \<and> facturas_emitidas w' = ?U)"
    by (cases "fst (siguiente_fallo (fallos_update w))") simp_all
  from enc(2) have ok: "fst (siguiente_fallo (fallos_update w)) = SinFallo \<Longrightarrow> facturas_emitidas w' = ?U"
    by simp
  from casos have marco: "solo_montos_cambian (id_fila fila) ?T (facturas_emitidas w')"
    by (auto simp: solo_montos_refl solo_montos_update)
  from casos have col: "map cliente (facturas_emitidas w') = map cliente ?T"
      "map rut_cliente (facturas_emitidas w') = map rut_cliente ?T"
    by (auto simp: aplicar_update_columnas_emitida)
  have otras: "facturas_emitidas w' ! k = ?T ! k"
    if d: "distinct (map id_fila ?T)" and k: "k < length ?T" and n: "?T ! k \<noteq> fila" for k
  proof -
    from coincidencias_en_tabla [OF co] have "fila \<in> set ?T" by simp
    from distinct_id_misma_fila [OF d this k] n have "id_fila (?T ! k) \<noteq> id_fila fila"
      by blast
    with marco k show ?thesis
      by (simp add: solo_montos_cambian_def)
  qed
  have esa: "monto_clp (facturas_emitidas w' ! k) = montoTotal doc \<and>
             monto_uf (facturas_emitidas w' ! k) =
               a_json (calcular_monto_uf (Finito (montoTotal doc)) (Finito uf)) \<and>
             actualizado_sii (facturas_emitidas w' ! k) = Some (reloj w (lecturas w))"
    if s: "fst (siguiente_fallo (fallos_update w)) = SinFallo" and k: "k < length ?T"
      and i: "id_fila (?T ! k) = id_fila fila" for k
    using aplicar_update_esa [OF k i] ok [OF s] by simp
  from cuenta marco col otras esa enc(3,4) show ?thesis
    by blast
qed

lemma actualiza_solo_montos_recibidas:
  assumes fe: "fechaEmision doc \<noteq> FechaOtroTipo"
      and sf: "fst (siguiente_fallo (fallos_select w)) = SinFallo"
      and co: "coincidencias (folio doc) (facturas_recibidas w) = [fila]"
      and it: "iteracion_recibidas doc uf r w = (r', w')"
  shows "nuevos r' = nuevos r \<and> actualizados r' = actualizados r + 1 \<and> errores r' = errores r
       \<and> solo_montos_cambian (id_fila fila) (facturas_recibidas w) (facturas_recibidas w')
       \<and> map proveedor (facturas_recibidas w') = map proveedor (facturas_recibidas w)
       \<and> map rut_proveedor (facturas_recibidas w') = map rut_proveedor (facturas_recibidas w)
       \<and> map categoria (facturas_recibidas w') = map categoria (facturas_recibidas w)
       \<and> (distinct (map id_fila (facturas_recibidas w)) \<longrightarrow>
            (\<forall>k < length (facturas_recibidas w).
               facturas_recibidas w ! k \<noteq> fila \<longrightarrow> facturas_recibidas w' ! k = facturas_recibidas w ! k))
       \<and> (fst (siguiente_fallo (fallos_update w)) = SinFallo \<longrightarrow>
            (\<forall>k < length (facturas_recibidas w).
               id_fila (facturas_recibidas w ! k) = id_fila fila \<longrightarrow>
                 monto_clp (facturas_recibidas w' ! k) = montoTotal doc \<and>
                 monto_uf (facturas_recibidas w' ! k) =
                   a_json (calcular_monto_uf (Finito (montoTotal doc)) (Finito uf)) \<and>
                 actualizado_sii (facturas_recibidas w' ! k) = Some (reloj w (lecturas w))))
       \<and> facturas_emitidas w' = facturas_emitidas w
       \<and> sii_sync_log w' = sii_sync_log w"
proof -
  let ?T = "facturas_recibidas w"
  let ?U = "aplicar_update (id_fila fila) (montoTotal doc)
              (a_json (calcular_monto_uf (Finito (montoTotal doc)) (Finito uf)))
              (Some (reloj w (lecturas w))) ?T"
  note se = select_recibidas_encuentra [OF sf co]
  note enc = iteracion_recibidas_encontrada [OF fe se it]
  from enc(1) have cuenta: "nuevos r' = nuevos r \<and> actualizados r' = actualizados r + 1 \<and> errores r' = errores r"
    by simp
  from enc(2) have casos: "facturas_recibidas w' = ?T \<or>
      (fst (siguiente_fallo (fallos_update w)) = SinFallo \<and> facturas_recibidas w' = ?U)"
    by (cases "fst (siguiente_fallo (fallos_update w))") simp_all
  from enc(2) have ok: "fst (siguiente_fallo (fallos_update w)) = SinFallo \<Longrightarrow> facturas_recibidas w' = ?U"
    by simp
  from casos have marco: "solo_montos_cambian (id_fila fila) ?T (facturas_recibidas w')"
    by (auto simp: solo_montos_refl solo_montos_update)
  from casos have col: "map proveedor (facturas_recibidas w') = map proveedor ?T"
      "map rut_proveedor (facturas_recibidas w') = map rut_proveedor ?T"
      "map categoria (facturas_recibidas w') = map categoria ?T"
    by (auto simp: aplicar_update_columnas_recibida)
  have otras: "facturas_recibidas w' ! k = ?T ! k"
    if d: "distinct (map id_fila ?T)" and k: "k < length ?T" and n: "?T ! k \<noteq> fila" for k
  proof -
    from coincidencias_en_tabla [OF co] have "fila \<in> set ?T" by simp
    from distinct_id_misma_fila [OF d this k] n have "id_fila (?T ! k) \<noteq> id_fila fila"
      by blast
    with marco k show ?thesis
      by (simp add: solo_montos_cambian_def)
  qed
  have esa: "monto_clp (facturas_recibidas w' ! k) = montoTotal doc \<and>
             monto_uf (facturas_recibidas w' ! k) =
               a_json (calcular_monto_uf (Finito (montoTotal doc)) (Finito uf)) \<and>
             actualizado_sii (facturas_recibidas w' ! k) = Some (reloj w (lecturas w))"
    if s: "fst (siguiente_fallo (fallos_update w)) = SinFallo" and k: "k < length ?T"
      and i: "id_fila (?T ! k) = id_fila fila" for k
    using aplicar_update_esa [OF k i] ok [OF s] by simp
  from cuenta marco col otras esa enc(3,4) show ?thesis
    by blast
qed

lemma update_fallido_emitidas:
  assumes fe: "fechaEmision doc \<noteq> FechaOtroTipo"
      and se: "fst (select_emitidas (folio doc) w) = Some i"
      and it: "iteracion_emitidas doc uf r w = (r', w')"
  shows "actualizados r' = actualizados r + 1 \<and> nuevos r' = nuevos r \<and> errores r' = errores r
       \<and> (\<forall>m rest. fallos_update w = ErrorBD m # rest \<longrightarrow>
             facturas_emitidas w' = facturas_emitidas w)"
proof -
  note enc = iteracion_emitidas_encontrada [OF fe se it]
  from enc(1) have "actualizados r' = actualizados r + 1 \<and> nuevos r' = nuevos r \<and> errores r' = errores r"
    by simp
  moreover from enc(2) have "facturas_emitidas w' = facturas_emitidas w"
    if "fallos_update w = ErrorBD m # rest" for m rest
    using that by (simp add: siguiente_fallo_def)
  ultimately show ?thesis by blast
qed

lemma update_fallido_recibidas:
  assumes fe: "fechaEmision doc \<noteq> FechaOtroTipo"
      and se: "fst (select_recibidas (folio doc) w) = Some i"
      and it: "iteracion_recibidas doc uf r w = (r', w')"
  shows "actualizados r' = actualizados r + 1 \<and> nuevos r' = nuevos r \<and> errores r' = errores r
       \<and> (\<forall>m rest. fallos_update w = ErrorBD m # rest \<longrightarrow>
             facturas_recibidas w' = facturas_recibidas w)"
proof -
  note enc = iteracion_recibidas_encontrada [OF fe se it]
  from enc(1) have "actualizados r' = actualizados r + 1 \<and> nuevos r' = nuevos r \<and> errores r' = errores r"
    by simp
  moreover from enc(2) have "facturas_recibidas w' = facturas_recibidas w"
    if "fallos_update w = ErrorBD m # rest" for m rest
    using that by (simp add: siguiente_fallo_def)
  ultimately show ?thesis by blast
qed

text \<open>
  Claim C2, as stated, fails: the document's folio has a row with the origin
  \<^verbatim>\<open>'SimpleAPI'\<close>, the lookup is answered with an error, and the document is counted in
  \<open>nuevos\<close>; the row is left as it was and a second row is inserted.
\<close>

theorem consulta_fallida_cuenta_como_nuevo:
  "coincidencias (folio doc_ejemplo)
      (facturas_emitidas (mundo_ejemplo\<lparr>fallos_select := [ErrorBD ''timeout'']\<rparr>)) = [fila_ejemplo]
   \<and> nuevos (fst (procesarFacturasEmitidas [doc_ejemplo] 38000
        (mundo_ejemplo\<lparr>fallos_select := [ErrorBD ''timeout'']\<rparr>))) = 1
   \<and> actualizados (fst (procesarFacturasEmitidas [doc_ejemplo] 38000
        (mundo_ejemplo\<lparr>fallos_select := [ErrorBD ''timeout'']\<rparr>))) = 0
   \<and> take 2 (facturas_emitidas (snd (procesarFacturasEmitidas [doc_ejemplo] 38000
        (mundo_ejemplo\<lparr>fallos_select := [ErrorBD ''timeout'']\<rparr>)))) = [fila_ejemplo, fila_manual]
   \<and> length (facturas_emitidas (snd (procesarFacturasEmitidas [doc_ejemplo] 38000
        (mundo_ejemplo\<lparr>fallos_select := [ErrorBD ''timeout'']\<rparr>)))) = 3"
  by code_simp

text \<open>
  Claim C2, amended. For every document (with an issue timestamp that is missing or a
  string) whose lookup is answered without error and whose folio has exactly one row
  with the origin \<^verbatim>\<open>'SimpleAPI'\<close> in the target table, one turn of the reconciler counts
  the document in \<open>actualizados\<close> and not in \<open>nuevos\<close> or \<open>errores\<close>; in the table only the
  columns \<open>monto_clp\<close>, \<open>monto_uf\<close> and \<open>actualizado_sii\<close> can differ afterwards, every row
  with another id is the same row (so, ids being distinct, every row other than the one
  found), and when the update is answered without error the row found holds the
  document's amount, the derived amount and the clock reading; the other invoice table
  and the audit log are the same.
\<close>

theorem folio_existente_actualiza_solo_montos:
  "(fechaEmision doc \<noteq> FechaOtroTipo
      \<and> fst (siguiente_fallo (fallos_select w)) = SinFallo
      \<and> coincidencias (folio doc) (facturas_emitidas w) = [fila]
      \<and> iteracion_emitidas doc uf r w = (r', w') \<longrightarrow>
       nuevos r' = nuevos r \<and> actualizados r' = actualizados r + 1 \<and> errores r' = errores r
       \<and> solo_montos_cambian (id_fila fila) (facturas_emitidas w) (facturas_emitidas w')
       \<and> map cliente (facturas_emitidas w') = map cliente (facturas_emitidas w)
       \<and> map rut_cliente (facturas_emitidas w') = map rut_cliente (facturas_emitidas w)
       \<and> (distinct (map id_fila (facturas_emitidas w)) \<longrightarrow>
            (\<forall>k < length (facturas_emitidas w).
               facturas_emitidas w ! k \<noteq> fila \<longrightarrow> facturas_emitidas w' ! k = facturas_emitidas w ! k))
       \<and> (fst (siguiente_fallo (fallos_update w)) = SinFallo \<longrightarrow>
            (\<forall>k < length (facturas_emitidas w).
               id_fila (facturas_emitidas w ! k) = id_fila fila \<longrightarrow>
                 monto_clp (facturas_emitidas w' ! k) = montoTotal doc \<and>
                 monto_uf (facturas_emitidas w' ! k) =
                   a_json (calcular_monto_uf (Finito (montoTotal doc)) (Finito uf)) \<and>
                 actualizado_sii (facturas_emitidas w' ! k) = Some (reloj w (lecturas w))))
       \<and> facturas_recibidas w' = facturas_recibidas w
       \<and> sii_sync_log w' = sii_sync_log w)
   \<and> (fechaEmision doc \<noteq> FechaOtroTipo
      \<and> fst (siguiente_fallo (fallos_select w)) = SinFallo
      \<and> coincidencias (folio doc) (facturas_recibidas w) = [filar]
      \<and> iteracion_recibidas doc uf r w = (r', w') \<longrightarrow>
       nuevos r' = nuevos r \<and> actualizados r' = actualizados r + 1 \<and> errores r' = errores r
       \<and> solo_montos_cambian (id_fila filar) (facturas_recibidas w) (facturas_recibidas w')
       \<and> map proveedor (facturas_recibidas w') = map proveedor (facturas_recibidas w)
       \<and> map rut_proveedor (facturas_recibidas w') = map rut_proveedor (facturas_recibidas w)
       \<and> map categoria (facturas_recibidas w') = map categoria (facturas_recibidas w)
       \<and> (distinct (map id_fila (facturas_recibidas w)) \<longrightarrow>
            (\<forall>k < length (facturas_recibidas w).
               facturas_recibidas w ! k \<noteq> filar \<longrightarrow> facturas_recibidas w' ! k = facturas_recibidas w ! k))
       \<and> (fst (siguiente_fallo (fallos_update w)) = SinFallo \<longrightarrow>
            (\<forall>k < length (facturas_recibidas w).
               id_fila (facturas_recibidas w ! k) = id_fila filar \<longrightarrow>
                 monto_clp (facturas_recibidas w' ! k) = montoTotal doc \<and>
                 monto_uf (facturas_recibidas w' ! k) =
                   a_json (calcular_monto_uf (Finito (montoTotal doc)) (Finito uf)) \<and>
                 actualizado_sii (facturas_recibidas w' ! k) = Some (reloj w (lecturas w))))
       \<and> facturas_emitidas w' = facturas_emitidas w
       \<and> sii_sync_log w' = sii_sync_log w)"
proof (rule conjI; rule impI)
  assume "fechaEmision doc \<noteq> FechaOtroTipo
      \<and> fst (siguiente_fallo (fallos_select w)) = SinFallo
      \<and> coincidencias (folio doc) (facturas_emitidas w) = [fila]
      \<and> iteracion_emitidas doc uf r w = (r', w')"
  then have "fechaEmision doc \<noteq> FechaOtroTipo"
    and "fst (siguiente_fallo (fallos_select w)) = SinFallo"
    and "coincidencias (folio doc) (facturas_emitidas w) = [fila]"
    and "iteracion_emitidas doc uf r w = (r', w')"
    by simp_all
  then show "nuevos r' = nuevos r \<and> actualizados r' = actualizados r + 1 \<and> errores r' = errores r
       \<and> solo_montos_cambian (id_fila fila) (facturas_emitidas w) (facturas_emitidas w')
       \<and> map cliente (facturas_emitidas w') = map cliente (facturas_emitidas w)
       \<and> map rut_cliente (facturas_emitidas w') = map rut_cliente (facturas_emitidas w)
       \<and> (distinct (map id_fila (facturas_emitidas w)) \<longrightarrow>
            (\<forall>k < length (facturas_emitidas w).
               facturas_emitidas w ! k \<noteq> fila \<longrightarrow> facturas_emitidas w' ! k = facturas_emitidas w ! k))
       \<and> (fst (siguiente_fallo (fallos_update w)) = SinFallo \<longrightarrow>
            (\<forall>k < length (facturas_emitidas w).
               id_fila (facturas_emitidas w ! k) = id_fila fila \<longrightarrow>
                 monto_clp (facturas_emitidas w' ! k) = montoTotal doc \<and>
                 monto_uf (facturas_emitidas w' ! k) =
                   a_json (calcular_monto_uf (Finito (montoTotal doc)) (Finito uf)) \<and>
                 actualizado_sii (facturas_emitidas w' ! k) = Some (reloj w (lecturas w))))
       \<and> facturas_recibidas w' = facturas_recibidas w
       \<and> sii_sync_log w' = sii_sync_log w"
    by (rule actualiza_solo_montos_emitidas)
next
  assume "fechaEmision doc \<noteq> FechaOtroTipo
      \<and> fst (siguiente_fallo (fallos_select w)) = SinFallo
      \<and> coincidencias (folio doc) (facturas_recibidas w) = [filar]
      \<and> iteracion_recibidas doc uf r w = (r', w')"
  then have "fechaEmision doc \<noteq> FechaOtroTipo"
    and "fst (siguiente_fallo (fallos_select w)) = SinFallo"
    and "coincidencias (folio doc) (facturas_recibidas w) = [filar]"
    and "iteracion_recibidas doc uf r w = (r', w')"
    by simp_all
  then show "nuevos r' = nuevos r \<and> actualizados r' = actualizados r + 1 \<and> errores r' = errores r
       \<and> solo_montos_cambian (id_fila filar) (facturas_recibidas w) (facturas_recibidas w')
       \<and> map proveedor (facturas_recibidas w') = map proveedor (facturas_recibidas w)
       \<and> map rut_proveedor (facturas_recibidas w') = map rut_proveedor (facturas_recibidas w)
       \<and> map categoria (facturas_recibidas w') = map categoria (facturas_recibidas w)
       \<and> (distinct (map id_fila (facturas_recibidas w)) \<longrightarrow>
            (\<forall>k < length (facturas_recibidas w).
               facturas_recibidas w ! k \<noteq> filar \<longrightarrow> facturas_recibidas w' ! k = facturas_recibidas w ! k))
       \<and> (fst (siguiente_fallo (fallos_update w)) = SinFallo \<longrightarrow>
            (\<forall>k < length (facturas_recibidas w).
               id_fila (facturas_recibidas w ! k) = id_fila filar \<longrightarrow>
                 monto_clp (facturas_recibidas w' ! k) = montoTotal doc \<and>
                 monto_uf (facturas_recibidas w' ! k) =
                   a_json (calcular_monto_uf (Finito (montoTotal doc)) (Finito uf)) \<and>
                 actualizado_sii (facturas_recibidas w' ! k) = Some (reloj w (lecturas w))))
       \<and> facturas_emitidas w' = facturas_emitidas w
       \<and> sii_sync_log w' = sii_sync_log w"
    by (rule actualiza_solo_montos_recibidas)
qed

theorem folio_existente_actualiza_solo_montos_testigo:
  "fechaEmision doc_ejemplo \<noteq> FechaOtroTipo
   \<and> fst (siguiente_fallo (fallos_select mundo_recibidas)) = SinFallo
   \<and> coincidencias (folio doc_ejemplo) (facturas_emitidas mundo_recibidas) = [fila_ejemplo]
   \<and> coincidencias (folio doc_ejemplo) (facturas_recibidas mundo_recibidas) = [fila_recibida_ejemplo]
   \<and> actualizados (fst (iteracion_emitidas doc_ejemplo 38000 resumen_inicial mundo_recibidas)) = 1
   \<and> nuevos (fst (iteracion_emitidas doc_ejemplo 38000 resumen_inicial mundo_recibidas)) = 0
   \<and> solo_montos_cambian (id_fila fila_ejemplo) (facturas_emitidas mundo_recibidas)
        (facturas_emitidas (snd (iteracion_emitidas doc_ejemplo 38000 resumen_inicial mundo_recibidas)))
   \<and> solo_montos_cambian (id_fila fila_recibida_ejemplo) (facturas_recibidas mundo_recibidas)
        (facturas_recibidas (snd (iteracion_recibidas doc_ejemplo 38000 resumen_inicial mundo_recibidas)))
   \<and> facturas_emitidas (snd (iteracion_emitidas doc_ejemplo 38000 resumen_inicial mundo_recibidas)) =
        [fila_ejemplo\<lparr>monto_clp := 3800000, monto_uf := Some 100,
                      actualizado_sii := Some ''2026-02-01T00:00:00.000Z''\<rparr>, fila_manual]
   \<and> facturas_recibidas (snd (iteracion_recibidas doc_ejemplo 38000 resumen_inicial mundo_recibidas)) =
        [fila_recibida_ejemplo\<lparr>monto_clp := 3800000, monto_uf := Some 100,
                               actualizado_sii := Some ''2026-02-01T00:00:00.000Z''\<rparr>]"
proof -
  have h1: "fechaEmision doc_ejemplo \<noteq> FechaOtroTipo"
    by code_simp
  have h2: "fst (siguiente_fallo (fallos_select mundo_recibidas)) = SinFallo"
    by code_simp
  have h3: "coincidencias (folio doc_ejemplo) (facturas_emitidas mundo_recibidas) = [fila_ejemplo]"
    by code_simp
  have h4: "coincidencias (folio doc_ejemplo) (facturas_recibidas mundo_recibidas) = [fila_recibida_ejemplo]"
    by code_simp
  have e1: "facturas_emitidas (snd (iteracion_emitidas doc_ejemplo 38000 resumen_inicial mundo_recibidas)) =
        [fila_ejemplo\<lparr>monto_clp := 3800000, monto_uf := Some 100,
                      actualizado_sii := Some ''2026-02-01T00:00:00.000Z''\<rparr>, fila_manual]"
    by code_simp
  have e2: "facturas_recibidas (snd (iteracion_recibidas doc_ejemplo 38000 resumen_inicial mundo_recibidas)) =
        [fila_recibida_ejemplo\<lparr>monto_clp := 3800000, monto_uf := Some 100,
                               actualizado_sii := Some ''2026-02-01T00:00:00.000Z''\<rparr>]"
    by code_simp
  have e3: "actualizados (fst (iteracion_emitidas doc_ejemplo 38000 resumen_inicial mundo_recibidas)) = 1"
    by code_simp
  have e4: "nuevos (fst (iteracion_emitidas doc_ejemplo 38000 resumen_inicial mundo_recibidas)) = 0"
    by code_simp
  note t = folio_existente_actualiza_solo_montos
    [where doc = doc_ejemplo and w = mundo_recibidas and uf = 38000 and r = resumen_inicial
       and fila = fila_ejemplo and filar = fila_recibida_ejemplo]
  from t [where r' = "fst (iteracion_emitidas doc_ejemplo 38000 resumen_inicial mundo_recibidas)"
            and w' = "snd (iteracion_emitidas doc_ejemplo 38000 resumen_inicial mundo_recibidas)"]
       h1 h2 h3
  have c1: "solo_montos_cambian (id_fila fila_ejemplo) (facturas_emitidas mundo_recibidas)
        (facturas_emitidas (snd (iteracion_emitidas doc_ejemplo 38000 resumen_inicial mundo_recibidas)))"
    by simp
  from t [where r' = "fst (iteracion_recibidas doc_ejemplo 38000 resumen_inicial mundo_recibidas)"
            and w' = "snd (iteracion_recibidas doc_ejemplo 38000 resumen_inicial mundo_recibidas)"]
       h1 h2 h4
  have c2: "solo_montos_cambian (id_fila fila_recibida_ejemplo) (facturas_recibidas mundo_recibidas)
        (facturas_recibidas (snd (iteracion_recibidas doc_ejemplo 38000 resumen_inicial mundo_recibidas)))"
    by simp
  from h1 h2 h3 h4 e1 e2 e3 e4 c1 c2 show ?thesis
    by simp
qed

text \<open>
  Claim C10. For every document whose lookup finds a row, \<open>actualizados\<close> grows by one
  whatever the datastore answers to the update: the answer is not read, so when the
  update is answered with an error the table is left as it was, the document is still
  counted as updated, and \<open>errores\<close> gets no entry.
\<close>

theorem update_fallido_cuenta_como_actualizado:
  "(fechaEmision doc \<noteq> FechaOtroTipo
      \<and> fst (select_emitidas (folio doc) w) = Some i
      \<and> iteracion_emitidas doc uf r w = (r', w') \<longrightarrow>
       actualizados r' = actualizados r + 1 \<and> nuevos r' = nuevos r \<and> errores r' = errores r
       \<and> (\<forall>m rest. fallos_update w = ErrorBD m # rest \<longrightarrow>
             facturas_emitidas w' = facturas_emitidas w))
   \<and> (fechaEmision doc \<noteq> FechaOtroTipo
      \<and> fst (select_recibidas (folio doc) w) = Some i
      \<and> iteracion_recibidas doc uf r w = (r', w') \<longrightarrow>
       actualizados r' = actualizados r + 1 \<and> nuevos r' = nuevos r \<and> errores r' = errores r
       \<and> (\<forall>m rest. fallos_update w = ErrorBD m # rest \<longrightarrow>
             facturas_recibidas w' = facturas_recibidas w))"
proof (rule conjI; rule impI)
  assume "fechaEmision doc \<noteq> FechaOtroTipo
      \<and> fst (select_emitidas (folio doc) w) = Some i
      \<and> iteracion_emitidas doc uf r w = (r', w')"
  then have "fechaEmision doc \<noteq> FechaOtroTipo" and "fst (select_emitidas (folio doc) w) = Some i"
    and "iteracion_emitidas doc uf r w = (r', w')"
    by simp_all
  then show "actualizados r' = actualizados r + 1 \<and> nuevos r' = nuevos r \<and> errores r' = errores r
       \<and> (\<forall>m rest. fallos_update w = ErrorBD m # rest \<longrightarrow>
             facturas_emitidas w' = facturas_emitidas w)"
    by (rule update_fallido_emitidas)
next
  assume "fechaEmision doc \<noteq> FechaOtroTipo
      \<and> fst (select_recibidas (folio doc) w) = Some i
      \<and> iteracion_recibidas doc uf r w = (r', w')"
  then have "fechaEmision doc \<noteq> FechaOtroTipo" and "fst (select_recibidas (folio doc) w) = Some i"
    and "iteracion_recibidas doc uf r w = (r', w')"
    by simp_all
  then show "actualizados r' = actualizados r + 1 \<and> nuevos r' = nuevos r \<and> errores r' = errores r
       \<and> (\<forall>m rest. fallos_update w = ErrorBD m # rest \<longrightarrow>
             facturas_recibidas w' = facturas_recibidas w)"
    by (rule update_fallido_recibidas)
qed

theorem update_fallido_cuenta_como_actualizado_testigo:
  "fechaEmision doc_ejemplo \<noteq> FechaOtroTipo
   \<and> fst (select_emitidas (folio doc_ejemplo)
        (mundo_recibidas\<lparr>fallos_update := [ErrorBD ''permission denied'']\<rparr>)) = Some 7
   \<and> fst (select_recibidas (folio doc_ejemplo)
        (mundo_recibidas\<lparr>fallos_update := [ErrorBD ''permission denied'']\<rparr>)) = Some 3
   \<and> fallos_update (mundo_recibidas\<lparr>fallos_update := [ErrorBD ''permission denied'']\<rparr>)
        = [ErrorBD ''permission denied'']
   \<and> actualizados (fst (iteracion_emitidas doc_ejemplo 38000 resumen_inicial
        (mundo_recibidas\<lparr>fallos_update := [ErrorBD ''permission denied'']\<rparr>)))
       = actualizados resumen_inicial + 1
   \<and> errores (fst (iteracion_emitidas doc_ejemplo 38000 resumen_inicial
        (mundo_recibidas\<lparr>fallos_update := [ErrorBD ''permission denied'']\<rparr>)))
       = errores resumen_inicial
   \<and> facturas_emitidas (snd (iteracion_emitidas doc_ejemplo 38000 resumen_inicial
        (mundo_recibidas\<lparr>fallos_update := [ErrorBD ''permission denied'']\<rparr>)))
       = facturas_emitidas (mundo_recibidas\<lparr>fallos_update := [ErrorBD ''permission denied'']\<rparr>)
   \<and> actualizados (fst (iteracion_recibidas doc_ejemplo 38000 resumen_inicial
        (mundo_recibidas\<lparr>fallos_update := [ErrorBD ''permission denied'']\<rparr>)))
       = actualizados resumen_inicial + 1
   \<and> facturas_recibidas (snd (iteracion_recibidas doc_ejemplo 38000 resumen_inicial
        (mundo_recibidas\<lparr>fallos_update := [ErrorBD ''permission denied'']\<rparr>)))
       = facturas_recibidas (mundo_recibidas\<lparr>fallos_update := [ErrorBD ''permission denied'']\<rparr>)"
proof -
  let ?w = "mundo_recibidas\<lparr>fallos_update := [ErrorBD ''permission denied'']\<rparr>"
  have h1: "fechaEmision doc_ejemplo \<noteq> FechaOtroTipo"
    by code_simp
  have h2: "fst (select_emitidas (folio doc_ejemplo) ?w) = Some 7"
    by code_simp
  have h3: "fst (select_recibidas (folio doc_ejemplo) ?w) = Some 3"
    by code_simp
  have h4: "fallos_update ?w = [ErrorBD ''permission denied'']"
    by simp
  note t = update_fallido_cuenta_como_actualizado
    [where doc = doc_ejemplo and w = ?w and uf = 38000 and r = resumen_inicial]
  from t [where i = 7 and r' = "fst (iteracion_emitidas doc_ejemplo 38000 resumen_inicial ?w)"
            and w' = "snd (iteracion_emitidas doc_ejemplo 38000 resumen_inicial ?w)"] h1 h2 h4
  have c1: "actualizados (fst (iteracion_emitidas doc_ejemplo 38000 resumen_inicial ?w))
              = actualizados resumen_inicial + 1
     \<and> errores (fst (iteracion_emitidas doc_ejemplo 38000 resumen_inicial ?w)) = errores resumen_inicial
     \<and> facturas_emitidas (snd (iteracion_emitidas doc_ejemplo 38000 resumen_inicial ?w))
              = facturas_emitidas ?w"
    by simp
  from t [where i = 3 and r' = "fst (iteracion_recibidas doc_ejemplo 38000 resumen_inicial ?w)"
            and w' = "snd (iteracion_recibidas doc_ejemplo 38000 resumen_inicial ?w)"] h1 h3 h4
  have c2: "actualizados (fst (iteracion_recibidas doc_ejemplo 38000 resumen_inicial ?w))
              = actualizados resumen_inicial + 1
     \<and> facturas_recibidas (snd (iteracion_recibidas doc_ejemplo 38000 resumen_inicial ?w))
              = facturas_recibidas ?w"
    by simp
  from h1 h2 h3 h4 c1 c2 show ?thesis
    by simp
qed

section \<open>A failure of one document\<close>

















section \<open>The reference rate\<close>

lemma getUFActual_marco:
  "getUFActual w = (v, w') \<Longrightarrow>
   w' = w\<lparr>fallos_select := snd (siguiente_fallo (fallos_select w)), traza := traza w @ [LlamadaSelectUF]\<rparr>"
  by (auto simp: getUFActual_def select_uf_def Let_def split: prod.splits fallo.splits option.splits if_splits)

lemma mas_reciente_None: "mas_reciente filas = None \<longleftrightarrow> filas = []"
  by (cases filas) (simp_all split: option.splits if_splits)

lemma getUFActual_valor:
  "fst (getUFActual w) =
     (case fst (siguiente_fallo (fallos_select w)) of
        SinFallo \<Rightarrow>
          (case mas_reciente (uf_valores w) of
             None \<Rightarrow> 38000
           | Some fila \<Rightarrow> (case valor fila of None \<Rightarrow> 38000 | Some v \<Rightarrow> if v = 0 then 38000 else v))
      | ErrorBD m \<Rightarrow> 38000)"
  by (simp add: getUFActual_def select_uf_def Let_def split: prod.splits fallo.splits option.splits)

lemma mas_reciente_es_maximo:
  "mas_reciente filas = Some f \<Longrightarrow> f \<in> set filas \<and> (\<forall>g \<in> set filas. fecha g \<le> fecha f)"
proof (induction filas arbitrary: f)
  case Nil
  then show ?case by simp
next
  case (Cons x xs)
  show ?case
  proof (cases "mas_reciente xs")
    case None
    then have "xs = []" by (simp add: mas_reciente_None)
    with Cons.prems show ?thesis by simp
  next
    case (Some y)
    from Cons.IH [OF Some] have y: "y \<in> set xs" "\<forall>g \<in> set xs. fecha g \<le> fecha y"
      by simp_all
    show ?thesis
    proof (cases "fecha x < fecha y")
      case True
      with Cons.prems Some have "f = y" by simp
      with y True show ?thesis by auto
    next
      case False
      with Cons.prems Some have "f = x" by simp
      with y False show ?thesis by fastforce
    qed
  qed
qed

text \<open>
  Claim C8, as stated, fails: \<^verbatim>\<open>data?.valor || 38000\<close> takes the number 0 (and a null
  \<open>valor\<close>) for a missing value. Here the row with the most recent \<open>fecha\<close> exists, the
  lookup is answered without error, its \<open>valor\<close> is 0, and the result is 38000.
\<close>

theorem valor_cero_devuelve_respaldo:
  "mas_reciente (uf_valores (mundo_ejemplo\<lparr>uf_valores := [\<lparr>fecha = 1, valor = Some 37000\<rparr>,
        \<lparr>fecha = 3, valor = Some 0\<rparr>]\<rparr>)) = Some \<lparr>fecha = 3, valor = Some 0\<rparr>
   \<and> fst (siguiente_fallo (fallos_select (mundo_ejemplo\<lparr>uf_valores := [\<lparr>fecha = 1, valor = Some 37000\<rparr>,
        \<lparr>fecha = 3, valor = Some 0\<rparr>]\<rparr>))) = SinFallo
   \<and> fst (getUFActual (mundo_ejemplo\<lparr>uf_valores := [\<lparr>fecha = 1, valor = Some 37000\<rparr>,
        \<lparr>fecha = 3, valor = Some 0\<rparr>]\<rparr>)) = 38000"
  by code_simp

text \<open>
  Claim C8, amended. For every answer to the rate query, \<open>getUFActual\<close> returns the
  \<open>valor\<close> of a row with the greatest \<open>fecha\<close> in \<open>uf_valores\<close> when the lookup is answered
  without error, such a row exists (the table is not empty) and its \<open>valor\<close> is a number
  other than 0; it returns 38000 when the table is empty, when the lookup fails, and when
  that \<open>valor\<close> is null or 0. It is a total function whose result is never 0, and it
  changes no table.
\<close>

theorem getUFActual_valor_o_respaldo:
  "(fst (siguiente_fallo (fallos_select w)) = SinFallo \<and> mas_reciente (uf_valores w) = Some f
      \<and> valor f = Some x \<and> x \<noteq> 0 \<longrightarrow> fst (getUFActual w) = x)
   \<and> (mas_reciente (uf_valores w) = Some f \<longrightarrow>
        f \<in> set (uf_valores w) \<and> (\<forall>g \<in> set (uf_valores w). fecha g \<le> fecha f))
   \<and> (uf_valores w \<noteq> [] \<longrightarrow> mas_reciente (uf_valores w) \<noteq> None)
   \<and> (uf_valores w = [] \<longrightarrow> fst (getUFActual w) = 38000)
   \<and> (fst (siguiente_fallo (fallos_select w)) \<noteq> SinFallo \<longrightarrow> fst (getUFActual w) = 38000)
   \<and> (mas_reciente (uf_valores w) = Some f \<and> (valor f = None \<or> valor f = Some 0) \<longrightarrow>
        fst (getUFActual w) = 38000)
   \<and> fst (getUFActual w) \<noteq> 0
   \<and> snd (getUFActual w) =
        w\<lparr>fallos_select := snd (siguiente_fallo (fallos_select w)), traza := traza w @ [LlamadaSelectUF]\<rparr>"
proof (intro conjI impI)
  assume "fst (siguiente_fallo (fallos_select w)) = SinFallo \<and> mas_reciente (uf_valores w) = Some f
      \<and> valor f = Some x \<and> x \<noteq> 0"
  then show "fst (getUFActual w) = x"
    by (simp add: getUFActual_valor)
next
  assume "mas_reciente (uf_valores w) = Some f"
  from mas_reciente_es_maximo [OF this]
  show "f \<in> set (uf_valores w)" and "\<forall>g \<in> set (uf_valores w). fecha g \<le> fecha f"
    by simp_all
next
  assume "uf_valores w \<noteq> []"
  then show "mas_reciente (uf_valores w) \<noteq> None"
    by (simp add: mas_reciente_None)
next
  assume "uf_valores w = []"
  then show "fst (getUFActual w) = 38000"
    by (simp add: getUFActual_valor split: fallo.splits)
next
  assume "fst (siguiente_fallo (fallos_select w)) \<noteq> SinFallo"
  then show "fst (getUFActual w) = 38000"
    by (simp add: getUFActual_valor split: fallo.splits)
next
  assume "mas_reciente (uf_valores w) = Some f \<and> (valor f = None \<or> valor f = Some 0)"
  then show "fst (getUFActual w) = 38000"
    by (auto simp: getUFActual_valor split: fallo.splits)
next
  show "fst (getUFActual w) \<noteq> 0"
    by (simp add: getUFActual_valor split: fallo.splits option.splits)
next
  show "snd (getUFActual w) =
        w\<lparr>fallos_select := snd (siguiente_fallo (fallos_select w)), traza := traza w @ [LlamadaSelectUF]\<rparr>"
    using getUFActual_marco [of w "fst (getUFActual w)" "snd (getUFActual w)"] by simp
qed


theorem getUFActual_valor_o_respaldo_testigo:
  "fst (siguiente_fallo (fallos_select mundo_ejemplo)) = SinFallo
   \<and> mas_reciente (uf_valores mundo_ejemplo) = Some \<lparr>fecha = 2, valor = Some 39000\<rparr>
   \<and> fst (getUFActual mundo_ejemplo) = 39000
   \<and> \<lparr>fecha = 2, valor = Some 39000\<rparr> \<in> set (uf_valores mundo_ejemplo)
   \<and> uf_valores (mundo_ejemplo\<lparr>uf_valores := []\<rparr>) = []
   \<and> fst (getUFActual (mundo_ejemplo\<lparr>uf_valores := []\<rparr>)) = 38000
   \<and> fst (siguiente_fallo (fallos_select (mundo_ejemplo\<lparr>fallos_select := [ErrorBD ''timeout'']\<rparr>))) \<noteq> SinFallo
   \<and> fst (getUFActual (mundo_ejemplo\<lparr>fallos_select := [ErrorBD ''timeout'']\<rparr>)) = 38000
   \<and> mas_reciente (uf_valores (mundo_ejemplo\<lparr>uf_valores := [\<lparr>fecha = 5, valor = None\<rparr>]\<rparr>))
       = Some \<lparr>fecha = 5, valor = None\<rparr>
   \<and> fst (getUFActual (mundo_ejemplo\<lparr>uf_valores := [\<lparr>fecha = 5, valor = None\<rparr>]\<rparr>)) = 38000"
proof -
  have h1: "fst (siguiente_fallo (fallos_select mundo_ejemplo)) = SinFallo"
    by code_simp
  have h2: "mas_reciente (uf_valores mundo_ejemplo) = Some \<lparr>fecha = 2, valor = Some 39000\<rparr>"
    by code_simp
  have h3: "uf_valores (mundo_ejemplo\<lparr>uf_valores := []\<rparr>) = []"
    by simp
  have h4: "fst (siguiente_fallo (fallos_select (mundo_ejemplo\<lparr>fallos_select := [ErrorBD ''timeout'']\<rparr>))) \<noteq> SinFallo"
    by code_simp
  have h5: "mas_reciente (uf_valores (mundo_ejemplo\<lparr>uf_valores := [\<lparr>fecha = 5, valor = None\<rparr>]\<rparr>))
       = Some \<lparr>fecha = 5, valor = None\<rparr>"
    by code_simp
  from getUFActual_valor_o_respaldo
         [where w = mundo_ejemplo and f = "\<lparr>fecha = 2, valor = Some 39000\<rparr>" and x = 39000] h1 h2
  have c1: "fst (getUFActual mundo_ejemplo) = 39000
      \<and> \<lparr>fecha = 2, valor = Some 39000\<rparr> \<in> set (uf_valores mundo_ejemplo)"
    by simp
  from getUFActual_valor_o_respaldo [where w = "mundo_ejemplo\<lparr>uf_valores := []\<rparr>"] h3
  have c2: "fst (getUFActual (mundo_ejemplo\<lparr>uf_valores := []\<rparr>)) = 38000"
    by blast
  from getUFActual_valor_o_respaldo
         [where w = "mundo_ejemplo\<lparr>fallos_select := [ErrorBD ''timeout'']\<rparr>"] h4
  have c3: "fst (getUFActual (mundo_ejemplo\<lparr>fallos_select := [ErrorBD ''timeout'']\<rparr>)) = 38000"
    by blast
  from getUFActual_valor_o_respaldo
         [where w = "mundo_ejemplo\<lparr>uf_valores := [\<lparr>fecha = 5, valor = None\<rparr>]\<rparr>"
            and f = "\<lparr>fecha = 5, valor = None\<rparr>"] h5
  have c4: "fst (getUFActual (mundo_ejemplo\<lparr>uf_valores := [\<lparr>fecha = 5, valor = None\<rparr>]\<rparr>)) = 38000"
    by simp
  from h1 h2 h3 h4 h5 c1 c2 c3 c4 show ?thesis
    by simp
qed

section \<open>Properties of the handler\<close>

lemma digito_no_guion: "es_digito c \<Longrightarrow> c \<noteq> CHR ''-''"
  by (auto simp: es_digito_def)

lemma coincide_periodo_forma:
  "coincide_periodo p \<longleftrightarrow>
     length p = 7 \<and> es_digito (p ! 0) \<and> es_digito (p ! 1) \<and> es_digito (p ! 2) \<and> es_digito (p ! 3) \<and>
     p ! 4 = CHR ''-'' \<and> es_digito (p ! 5) \<and> es_digito (p ! 6)"
proof
  assume "coincide_periodo p"
  then show "length p = 7 \<and> es_digito (p ! 0) \<and> es_digito (p ! 1) \<and> es_digito (p ! 2) \<and> es_digito (p ! 3) \<and>
     p ! 4 = CHR ''-'' \<and> es_digito (p ! 5) \<and> es_digito (p ! 6)"
    by (auto simp: coincide_periodo_def split: list.splits)
next
  assume a: "length p = 7 \<and> es_digito (p ! 0) \<and> es_digito (p ! 1) \<and> es_digito (p ! 2) \<and> es_digito (p ! 3) \<and>
     p ! 4 = CHR ''-'' \<and> es_digito (p ! 5) \<and> es_digito (p ! 6)"
  then obtain a b c d g m n where "p = [a, b, c, d, g, m, n]"
    by (auto simp: length_Suc_conv eval_nat_numeral)
  with a show "coincide_periodo p"
    by (simp add: coincide_periodo_def)
qed

lemma coincide_periodo_split:
  assumes "coincide_periodo p"
  shows "js_split (CHR ''-'') p = [take 4 p, drop 5 p]"
proof -
  from assms obtain a b c d g m n where p: "p = [a, b, c, d, g, m, n]"
    by (auto simp: coincide_periodo_def split: list.splits)
  with assms have "es_digito a" "es_digito b" "es_digito c" "es_digito d" "g = CHR ''-''"
      "es_digito m" "es_digito n"
    by (simp_all add: coincide_periodo_def)
  then show ?thesis
    by (simp add: p digito_no_guion)
qed

lemma coincide_periodo_no_vacio: "coincide_periodo p \<Longrightarrow> p \<noteq> []"
  by (auto simp: coincide_periodo_def)

lemma handler_valida:
  assumes "metodo req = ''POST''" and "periodo req = Some p" and "coincide_periodo p"
  shows "handler req cred w =
     (let (ufActual, w1) = getUFActual w;
          (consulta, w2) = consultarRCV (Some (drop 5 p)) (Some (take 4 p)) cred w1
      in (case consulta of
            Inl m \<Rightarrow> (\<lparr>codigo = 500, cuerpo_resp = CuerpoFallo m\<rparr>, w2)
          | Inr datos \<Rightarrow>
              (let (resultadoEmitidas, w3) =
                     rama_emitidas (ventas datos) ufActual p (userEmail req) w2;
                   (resultadoRecibidas, w4) =
                     rama_recibidas (compras datos) ufActual p (userEmail req) w3
               in (\<lparr>codigo = 200,
                    cuerpo_resp = CuerpoExito
                      \<lparr>periodo_resp = p,
                       uf_utilizada = ufActual,
                       emitidas = seccion_de (ventas datos) resultadoEmitidas,
                       recibidas = seccion_de (compras datos) resultadoRecibidas,
                       message = mensaje_200
                         (nuevos resultadoEmitidas + nuevos resultadoRecibidas)
                         (actualizados resultadoEmitidas + actualizados resultadoRecibidas)\<rparr>\<rparr>,
                   w4))))"
proof -
  from assms(3) have "length p = 7" by (simp add: coincide_periodo_forma)
  then have e: "elemento [take 4 p, drop 5 p] 0 = Some (take 4 p)"
      "elemento [take 4 p, drop 5 p] (Suc 0) = Some (drop 5 p)"
    by (simp_all add: elemento_def)
  from assms coincide_periodo_no_vacio [OF assms(3)] show ?thesis
    by (simp add: handler_def coincide_periodo_split e Let_def)
qed












lemma consultarRCV_error_http:
  assumes "remoto w = RespuestaHttp st texto json" and "\<not> respuesta_ok st"
  shows "consultarRCV mes anio cred w =
           (Inl (''Error SimpleAPI: '' @ mostrar_nat st @ '' - '' @ texto),
            w\<lparr>traza := traza w @ [LlamadaFetch (armar_peticion mes anio cred)]\<rparr>)"
  using assms by (simp add: consultarRCV_def Let_def)

text \<open>
  Claim C4. When the remote service answers with a status outside 200..299,
  \<open>consultarRCV\<close> throws an error whose message is \<open>Error SimpleAPI: {status} - {body}\<close>;
  the handler (for a valid request, the only kind that reaches the fetch) answers 500
  with \<open>{success: false, error: message}\<close>, and neither branch runs: the two invoice
  tables and the audit log are the same, and the only calls made are the rate lookup and
  the fetch.
\<close>

theorem estado_http_no_exitoso_aborta:
  assumes "metodo req = ''POST''" and "periodo req = Some p" and "coincide_periodo p"
      and "remoto w = RespuestaHttp st texto json" and "\<not> respuesta_ok st"
  shows "fst (consultarRCV mes anio cred w) =
           Inl (''Error SimpleAPI: '' @ mostrar_nat st @ '' - '' @ texto)
       \<and> fst (handler req cred w) =
           \<lparr>codigo = 500,
            cuerpo_resp = CuerpoFallo (''Error SimpleAPI: '' @ mostrar_nat st @ '' - '' @ texto)\<rparr>
       \<and> facturas_emitidas (snd (handler req cred w)) = facturas_emitidas w
       \<and> facturas_recibidas (snd (handler req cred w)) = facturas_recibidas w
       \<and> sii_sync_log (snd (handler req cred w)) = sii_sync_log w
       \<and> traza (snd (handler req cred w)) =
           traza w @ [LlamadaSelectUF,
                      LlamadaFetch (armar_peticion (Some (drop 5 p)) (Some (take 4 p)) cred)]"
proof -
  obtain v w1 where g: "getUFActual w = (v, w1)"
    by (cases "getUFActual w")
  note m = getUFActual_marco [OF g]
  from m assms(4) have r1: "remoto w1 = RespuestaHttp st texto json"
    by simp
  note c = consultarRCV_error_http [OF r1 assms(5)]
  from handler_valida [OF assms(1-3)] g c m
  have h: "handler req cred w =
     (\<lparr>codigo = 500,
       cuerpo_resp = CuerpoFallo (''Error SimpleAPI: '' @ mostrar_nat st @ '' - '' @ texto)\<rparr>,
      w\<lparr>fallos_select := snd (siguiente_fallo (fallos_select w)),
        traza := traza w @ [LlamadaSelectUF,
                   LlamadaFetch (armar_peticion (Some (drop 5 p)) (Some (take 4 p)) cred)]\<rparr>)"
    by simp
  from consultarRCV_error_http [OF assms(4,5)] h show ?thesis
    by simp
qed

theorem estado_http_no_exitoso_aborta_testigo:
  "metodo solicitud_ejemplo = ''POST''
   \<and> periodo solicitud_ejemplo = Some ''2026-01''
   \<and> coincide_periodo ''2026-01''
   \<and> remoto mundo_caido = RespuestaHttp 503 ''Service Unavailable'' (Inl ''Unexpected token S'')
   \<and> \<not> respuesta_ok 503
   \<and> fst (handler solicitud_ejemplo credenciales_ejemplo mundo_caido) =
       \<lparr>codigo = 500, cuerpo_resp = CuerpoFallo ''Error SimpleAPI: 503 - Service Unavailable''\<rparr>
   \<and> facturas_emitidas (snd (handler solicitud_ejemplo credenciales_ejemplo mundo_caido)) =
       facturas_emitidas mundo_caido
   \<and> facturas_recibidas (snd (handler solicitud_ejemplo credenciales_ejemplo mundo_caido)) =
       facturas_recibidas mundo_caido
   \<and> sii_sync_log (snd (handler solicitud_ejemplo credenciales_ejemplo mundo_caido)) =
       sii_sync_log mundo_caido
   \<and> traza (snd (handler solicitud_ejemplo credenciales_ejemplo mundo_caido)) =
       traza mundo_caido @
       [LlamadaSelectUF,
        LlamadaFetch (armar_peticion (Some (drop 5 ''2026-01'')) (Some (take 4 ''2026-01''))
                        credenciales_ejemplo)]"
proof -
  have h1: "metodo solicitud_ejemplo = ''POST''"
    by code_simp
  have h2: "periodo solicitud_ejemplo = Some ''2026-01''"
    by code_simp
  have h3: "coincide_periodo ''2026-01''"
    by code_simp
  have h4: "remoto mundo_caido = RespuestaHttp 503 ''Service Unavailable'' (Inl ''Unexpected token S'')"
    by (simp add: mundo_caido_def)
  have h5: "\<not> respuesta_ok 503"
    by (simp add: respuesta_ok_def)
  have m: "''Error SimpleAPI: '' @ mostrar_nat 503 @ '' - '' @ ''Service Unavailable'' =
           ''Error SimpleAPI: 503 - Service Unavailable''"
    by code_simp
  from estado_http_no_exitoso_aborta [OF h1 h2 h3 h4 h5, of None None credenciales_ejemplo] h1 h2 h3 h4 h5
  show ?thesis
    by (simp only: m simp_thms)
qed

lemma iteracion_emitidas_marco:
  "iteracion_emitidas doc uf r w = (r', w') \<Longrightarrow>
   facturas_recibidas w' = facturas_recibidas w \<and> sii_sync_log w' = sii_sync_log w"
  by (auto simp: iteracion_emitidas_def intento_emitidas_def reconciliar_emitida_def
        select_emitidas_def update_emitidas_def insert_emitidas_def leer_reloj_def Let_def
        split: prod.splits fallo.splits sum.splits option.splits)

lemma bucle_emitidas_marco:
  "bucle_emitidas docs uf r w = (r', w') \<Longrightarrow>
   facturas_recibidas w' = facturas_recibidas w \<and> sii_sync_log w' = sii_sync_log w"
proof (induction docs arbitrary: r w)
  case Nil
  then show ?case by simp
next
  case (Cons doc docs)
  obtain r1 w1 where paso: "iteracion_emitidas doc uf r w = (r1, w1)"
    by (cases "iteracion_emitidas doc uf r w")
  with Cons.prems have resto: "bucle_emitidas docs uf r1 w1 = (r', w')"
    by simp
  from iteracion_emitidas_marco [OF paso] Cons.IH [OF resto] show ?case
    by simp
qed

lemma iteracion_recibidas_marco:
  "iteracion_recibidas doc uf r w = (r', w') \<Longrightarrow>
   facturas_emitidas w' = facturas_emitidas w \<and> sii_sync_log w' = sii_sync_log w"
  by (auto simp: iteracion_recibidas_def intento_recibidas_def reconciliar_recibida_def
        select_recibidas_def update_recibidas_def insert_recibidas_def leer_reloj_def Let_def
        split: prod.splits fallo.splits sum.splits option.splits)

lemma bucle_recibidas_marco:
  "bucle_recibidas docs uf r w = (r', w') \<Longrightarrow>
   facturas_emitidas w' = facturas_emitidas w \<and> sii_sync_log w' = sii_sync_log w"
proof (induction docs arbitrary: r w)
  case Nil
  then show ?case by simp
next
  case (Cons doc docs)
  obtain r1 w1 where paso: "iteracion_recibidas doc uf r w = (r1, w1)"
    by (cases "iteracion_recibidas doc uf r w")
  with Cons.prems have resto: "bucle_recibidas docs uf r1 w1 = (r', w')"
    by simp
  from iteracion_recibidas_marco [OF paso] Cons.IH [OF resto] show ?case
    by simp
qed

lemma registrarSync_marco:
  "facturas_emitidas (registrarSync tipo p res email w) = facturas_emitidas w"
  "facturas_recibidas (registrarSync tipo p res email w) = facturas_recibidas w"
  "\<exists>ls. sii_sync_log (registrarSync tipo p res email w) = sii_sync_log w @ ls
        \<and> list_all (\<lambda>l. tipo_sync l = tipo) ls"
proof -
  obtain fl rest where s: "siguiente_fallo (fallos_insert w) = (fl, rest)"
    by (cases "siguiente_fallo (fallos_insert w)")
  show "facturas_emitidas (registrarSync tipo p res email w) = facturas_emitidas w"
    by (cases fl) (simp_all add: registrarSync_def s)
  show "facturas_recibidas (registrarSync tipo p res email w) = facturas_recibidas w"
    by (cases fl) (simp_all add: registrarSync_def s)
  show "\<exists>ls. sii_sync_log (registrarSync tipo p res email w) = sii_sync_log w @ ls
        \<and> list_all (\<lambda>l. tipo_sync l = tipo) ls"
    by (cases fl) (simp_all add: registrarSync_def s)
qed

lemma registrarSync_otro_tipo:
  assumes "tipo \<noteq> t"
  shows "filter (\<lambda>l. tipo_sync l = t) (sii_sync_log (registrarSync tipo p res email w)) =
         filter (\<lambda>l. tipo_sync l = t) (sii_sync_log w)"
proof -
  from registrarSync_marco(3) [of tipo p res email w] obtain ls where
    l: "sii_sync_log (registrarSync tipo p res email w) = sii_sync_log w @ ls"
    and a: "list_all (\<lambda>l. tipo_sync l = tipo) ls"
    by blast
  from a assms have "filter (\<lambda>l. tipo_sync l = t) ls = []"
    by (auto simp: filter_empty_conv list_all_iff)
  with l show ?thesis by simp
qed

lemma rama_emitidas_marco:
  assumes "rama_emitidas docs uf p email w = (res, w')"
  shows "facturas_recibidas w' = facturas_recibidas w"
    and "filter (\<lambda>l. tipo_sync l = ''facturas_recibidas'') (sii_sync_log w') =
         filter (\<lambda>l. tipo_sync l = ''facturas_recibidas'') (sii_sync_log w)"
proof -
  obtain r1 w1 where b: "bucle_emitidas docs uf resumen_inicial w = (r1, w1)"
    by (cases "bucle_emitidas docs uf resumen_inicial w")
  note m = bucle_emitidas_marco [OF b]
  have d: "''facturas_emitidas'' \<noteq> ''facturas_recibidas''"
    by simp
  have "rama_emitidas docs uf p email w =
          (if 0 < length docs then (r1, registrarSync ''facturas_emitidas'' p r1 email w1)
           else (resumen_inicial, w))"
    using b by (simp add: rama_emitidas_def procesarFacturasEmitidas_def)
  with assms have "w' = (if 0 < length docs then registrarSync ''facturas_emitidas'' p r1 email w1 else w)"
    by (cases "0 < length docs") auto
  then have "w' = registrarSync ''facturas_emitidas'' p r1 email w1 \<or> w' = w"
    by (simp split: if_splits)
  then show "facturas_recibidas w' = facturas_recibidas w"
    and "filter (\<lambda>l. tipo_sync l = ''facturas_recibidas'') (sii_sync_log w') =
         filter (\<lambda>l. tipo_sync l = ''facturas_recibidas'') (sii_sync_log w)"
    using m registrarSync_marco(2) [of "''facturas_emitidas''" p r1 email w1]
      registrarSync_otro_tipo [OF d, of p r1 email w1]
    by auto
qed

lemma rama_recibidas_marco:
  assumes "rama_recibidas docs uf p email w = (res, w')"
  shows "facturas_emitidas w' = facturas_emitidas w"
    and "filter (\<lambda>l. tipo_sync l = ''facturas_emitidas'') (sii_sync_log w') =
         filter (\<lambda>l. tipo_sync l = ''facturas_emitidas'') (sii_sync_log w)"
proof -
  obtain r1 w1 where b: "bucle_recibidas docs uf resumen_inicial w = (r1, w1)"
    by (cases "bucle_recibidas docs uf resumen_inicial w")
  note m = bucle_recibidas_marco [OF b]
  have d: "''facturas_recibidas'' \<noteq> ''facturas_emitidas''"
    by simp
  have "rama_recibidas docs uf p email w =
          (if 0 < length docs then (r1, registrarSync ''facturas_recibidas'' p r1 email w1)
           else (resumen_inicial, w))"
    using b by (simp add: rama_recibidas_def procesarFacturasRecibidas_def)
  with assms have "w' = (if 0 < length docs then registrarSync ''facturas_recibidas'' p r1 email w1 else w)"
    by (cases "0 < length docs") auto
  then have "w' = registrarSync ''facturas_recibidas'' p r1 email w1 \<or> w' = w"
    by (simp split: if_splits)
  then show "facturas_emitidas w' = facturas_emitidas w"
    and "filter (\<lambda>l. tipo_sync l = ''facturas_emitidas'') (sii_sync_log w') =
         filter (\<lambda>l. tipo_sync l = ''facturas_emitidas'') (sii_sync_log w)"
    using m registrarSync_marco(1) [of "''facturas_recibidas''" p r1 email w1]
      registrarSync_otro_tipo [OF d, of p r1 email w1]
    by auto
qed

lemma consultarRCV_exito:
  assumes "remoto w = RespuestaHttp st texto (Inr data)" and "respuesta_ok st"
  shows "consultarRCV mes anio cred w =
           (Inr \<lparr>ventas = (case detalleVentas data of None \<Rightarrow> [] | Some v \<Rightarrow> v),
                 compras = (case detalleCompras data of None \<Rightarrow> [] | Some c \<Rightarrow> c)\<rparr>,
            w\<lparr>traza := traza w @ [LlamadaFetch (armar_peticion mes anio cred)]\<rparr>)"
  using assms by (simp add: consultarRCV_def Let_def)

lemma handler_exito:
  assumes "metodo req = ''POST''" and "periodo req = Some p" and "coincide_periodo p"
      and "remoto w = RespuestaHttp st texto (Inr data)" and "respuesta_ok st"
      and e: "rama_emitidas (ventas_de data) (fst (getUFActual w)) p (userEmail req) (tras_consulta p cred w) = (re, w3)"
      and c: "rama_recibidas (compras_de data) (fst (getUFActual w)) p (userEmail req) w3 = (rr, w4)"
  shows "handler req cred w =
     (\<lparr>codigo = 200,
       cuerpo_resp = CuerpoExito
         \<lparr>periodo_resp = p,
          uf_utilizada = fst (getUFActual w),
          emitidas = seccion_de (ventas_de data) re,
          recibidas = seccion_de (compras_de data) rr,
          message = mensaje_200 (nuevos re + nuevos rr) (actualizados re + actualizados rr)\<rparr>\<rparr>,
      w4)"
proof -
  obtain v w1 where g: "getUFActual w = (v, w1)"
    by (cases "getUFActual w")
  from getUFActual_marco [OF g] assms(4) have r1: "remoto w1 = RespuestaHttp st texto (Inr data)"
    by simp
  note q = consultarRCV_exito [OF r1 assms(5), of "Some (drop 5 p)" "Some (take 4 p)" cred]
  from g q have t: "tras_consulta p cred w =
      w1\<lparr>traza := traza w1 @ [LlamadaFetch (armar_peticion (Some (drop 5 p)) (Some (take 4 p)) cred)]\<rparr>"
    by (simp add: tras_consulta_def)
  from e g t have e': "rama_emitidas (case detalleVentas data of None \<Rightarrow> [] | Some v \<Rightarrow> v) v p (userEmail req)
      (w1\<lparr>traza := traza w1 @ [LlamadaFetch (armar_peticion (Some (drop 5 p)) (Some (take 4 p)) cred)]\<rparr>) = (re, w3)"
    by (simp add: ventas_de_def)
  from c g have c': "rama_recibidas (case detalleCompras data of None \<Rightarrow> [] | Some c \<Rightarrow> c) v p (userEmail req) w3 = (rr, w4)"
    by (simp add: compras_de_def)
  from handler_valida [OF assms(1-3), of cred w] show ?thesis
    by (simp only: g q e' c' Let_def prod.case sum.case rcv.simps fst_conv ventas_de_def compras_de_def)
qed

lemma consultarRCV_mundo:
  "snd (consultarRCV mes anio cred w) =
     w\<lparr>traza := traza w @ [LlamadaFetch (armar_peticion mes anio cred)]\<rparr>"
  by (simp add: consultarRCV_def Let_def split: respuesta_remota.splits sum.splits)

lemma tras_consulta_marco:
  "facturas_emitidas (tras_consulta p cred w) = facturas_emitidas w"
  "facturas_recibidas (tras_consulta p cred w) = facturas_recibidas w"
  "sii_sync_log (tras_consulta p cred w) = sii_sync_log w"
  using getUFActual_marco [of w "fst (getUFActual w)" "snd (getUFActual w)"]
  by (simp_all add: tras_consulta_def consultarRCV_mundo)

lemma rama_emitidas_vacia: "rama_emitidas [] uf p email w = (resumen_inicial, w)"
  by (simp add: rama_emitidas_def)

lemma rama_recibidas_vacia: "rama_recibidas [] uf p email w = (resumen_inicial, w)"
  by (simp add: rama_recibidas_def)

lemma rama_emitidas_no_vacia:
  "docs \<noteq> [] \<Longrightarrow> rama_emitidas docs uf p email w =
     (fst (procesarFacturasEmitidas docs uf w),
      registrarSync ''facturas_emitidas'' p (fst (procesarFacturasEmitidas docs uf w)) email
        (snd (procesarFacturasEmitidas docs uf w)))"
  by (simp add: rama_emitidas_def split: prod.splits)

lemma rama_recibidas_no_vacia:
  "docs \<noteq> [] \<Longrightarrow> rama_recibidas docs uf p email w =
     (fst (procesarFacturasRecibidas docs uf w),
      registrarSync ''facturas_recibidas'' p (fst (procesarFacturasRecibidas docs uf w)) email
        (snd (procesarFacturasRecibidas docs uf w)))"
  by (simp add: rama_recibidas_def split: prod.splits)

lemma seccion_vacia:
  "seccion_de [] resumen_inicial = \<lparr>total = 0, nuevas = 0, actualizadas = 0, errores_seccion = []\<rparr>"
  by (simp add: seccion_de_def resumen_inicial_def)

lemma ventas_vacias:
  assumes v: "metodo req = ''POST''" "periodo req = Some p" "coincide_periodo p"
      "remoto w = RespuestaHttp st texto (Inr data)" "respuesta_ok st"
    and e: "ventas_de data = []"
  shows "(\<exists>ex. fst (handler req cred w) = \<lparr>codigo = 200, cuerpo_resp = CuerpoExito ex\<rparr>
            \<and> emitidas ex = \<lparr>total = 0, nuevas = 0, actualizadas = 0, errores_seccion = []\<rparr>
            \<and> recibidas ex = seccion_de (compras_de data)
                 (fst (rama_recibidas (compras_de data) (fst (getUFActual w)) p (userEmail req)
                        (tras_consulta p cred w))))
       \<and> snd (handler req cred w) =
           snd (rama_recibidas (compras_de data) (fst (getUFActual w)) p (userEmail req)
                  (tras_consulta p cred w))
       \<and> filter (\<lambda>l. tipo_sync l = ''facturas_emitidas'') (sii_sync_log (snd (handler req cred w))) =
           filter (\<lambda>l. tipo_sync l = ''facturas_emitidas'') (sii_sync_log w)
       \<and> facturas_emitidas (snd (handler req cred w)) = facturas_emitidas w"
proof -
  let ?uf = "fst (getUFActual w)"
  let ?w2 = "tras_consulta p cred w"
  obtain rr w4 where c: "rama_recibidas (compras_de data) ?uf p (userEmail req) ?w2 = (rr, w4)"
    by (cases "rama_recibidas (compras_de data) ?uf p (userEmail req) ?w2")
  have em: "rama_emitidas (ventas_de data) ?uf p (userEmail req) ?w2 = (resumen_inicial, ?w2)"
    by (simp add: e rama_emitidas_vacia)
  note h = handler_exito [OF v em c]
  note m = rama_recibidas_marco [OF c]
  from h e c m show ?thesis
    by (simp add: seccion_vacia tras_consulta_marco)
qed

lemma compras_vacias:
  assumes v: "metodo req = ''POST''" "periodo req = Some p" "coincide_periodo p"
      "remoto w = RespuestaHttp st texto (Inr data)" "respuesta_ok st"
    and e: "compras_de data = []"
  shows "(\<exists>ex. fst (handler req cred w) = \<lparr>codigo = 200, cuerpo_resp = CuerpoExito ex\<rparr>
            \<and> recibidas ex = \<lparr>total = 0, nuevas = 0, actualizadas = 0, errores_seccion = []\<rparr>
            \<and> emitidas ex = seccion_de (ventas_de data)
                 (fst (rama_emitidas (ventas_de data) (fst (getUFActual w)) p (userEmail req)
                        (tras_consulta p cred w))))
       \<and> snd (handler req cred w) =
           snd (rama_emitidas (ventas_de data) (fst (getUFActual w)) p (userEmail req)
                  (tras_consulta p cred w))
       \<and> filter (\<lambda>l. tipo_sync l = ''facturas_recibidas'') (sii_sync_log (snd (handler req cred w))) =
           filter (\<lambda>l. tipo_sync l = ''facturas_recibidas'') (sii_sync_log w)
       \<and> facturas_recibidas (snd (handler req cred w)) = facturas_recibidas w"
proof -
  let ?uf = "fst (getUFActual w)"
  let ?w2 = "tras_consulta p cred w"
  obtain re w3 where em: "rama_emitidas (ventas_de data) ?uf p (userEmail req) ?w2 = (re, w3)"
    by (cases "rama_emitidas (ventas_de data) ?uf p (userEmail req) ?w2")
  have c: "rama_recibidas (compras_de data) ?uf p (userEmail req) w3 = (resumen_inicial, w3)"
    by (simp add: e rama_recibidas_vacia)
  note h = handler_exito [OF v em c]
  note m = rama_emitidas_marco [OF em]
  from h e em m show ?thesis
    by (simp add: seccion_vacia tras_consulta_marco)
qed

text \<open>
  Claim C7. For a valid request that the remote service answers with success: when the
  array of sales documents is empty, the response is 200 with
  \<open>emitidas = {total: 0, nuevas: 0, actualizadas: 0, errores: []}\<close>, the audit log gets no
  row of type \<^verbatim>\<open>facturas_emitidas\<close>, the table \<^verbatim>\<open>facturas_emitidas\<close> is the same, and the
  purchases are reconciled and logged as the purchases branch does on its own from the
  world left by the rate lookup and the fetch (a non-empty array of purchases is
  reconciled by \<open>procesarFacturasRecibidas\<close> and then logged by \<open>registrarSync\<close>). The
  same holds with the two sides exchanged when the array of purchases is empty.
\<close>

theorem rama_vacia_no_registra_auditoria:
  assumes "metodo req = ''POST''" and "periodo req = Some p" and "coincide_periodo p"
      and "remoto w = RespuestaHttp st texto (Inr data)" and "respuesta_ok st"
  shows "(ventas_de data = [] \<longrightarrow>
           (\<exists>ex. fst (handler req cred w) = \<lparr>codigo = 200, cuerpo_resp = CuerpoExito ex\<rparr>
              \<and> emitidas ex = \<lparr>total = 0, nuevas = 0, actualizadas = 0, errores_seccion = []\<rparr>
              \<and> recibidas ex = seccion_de (compras_de data)
                   (fst (rama_recibidas (compras_de data) (fst (getUFActual w)) p (userEmail req)
                          (tras_consulta p cred w))))
           \<and> snd (handler req cred w) =
               snd (rama_recibidas (compras_de data) (fst (getUFActual w)) p (userEmail req)
                      (tras_consulta p cred w))
           \<and> filter (\<lambda>l. tipo_sync l = ''facturas_emitidas'') (sii_sync_log (snd (handler req cred w))) =
               filter (\<lambda>l. tipo_sync l = ''facturas_emitidas'') (sii_sync_log w)
           \<and> facturas_emitidas (snd (handler req cred w)) = facturas_emitidas w)
       \<and> (compras_de data = [] \<longrightarrow>
           (\<exists>ex. fst (handler req cred w) = \<lparr>codigo = 200, cuerpo_resp = CuerpoExito ex\<rparr>
              \<and> recibidas ex = \<lparr>total = 0, nuevas = 0, actualizadas = 0, errores_seccion = []\<rparr>
              \<and> emitidas ex = seccion_de (ventas_de data)
                   (fst (rama_emitidas (ventas_de data) (fst (getUFActual w)) p (userEmail req)
                          (tras_consulta p cred w))))
           \<and> snd (handler req cred w) =
               snd (rama_emitidas (ventas_de data) (fst (getUFActual w)) p (userEmail req)
                      (tras_consulta p cred w))
           \<and> filter (\<lambda>l. tipo_sync l = ''facturas_recibidas'') (sii_sync_log (snd (handler req cred w))) =
               filter (\<lambda>l. tipo_sync l = ''facturas_recibidas'') (sii_sync_log w)
           \<and> facturas_recibidas (snd (handler req cred w)) = facturas_recibidas w)
       \<and> (docs \<noteq> [] \<longrightarrow>
           rama_recibidas docs uf p email w0 =
             (fst (procesarFacturasRecibidas docs uf w0),
              registrarSync ''facturas_recibidas'' p (fst (procesarFacturasRecibidas docs uf w0)) email
                (snd (procesarFacturasRecibidas docs uf w0)))
           \<and> rama_emitidas docs uf p email w0 =
             (fst (procesarFacturasEmitidas docs uf w0),
              registrarSync ''facturas_emitidas'' p (fst (procesarFacturasEmitidas docs uf w0)) email
                (snd (procesarFacturasEmitidas docs uf w0))))"
  using ventas_vacias [OF assms, of cred] compras_vacias [OF assms, of cred]
    rama_recibidas_no_vacia [of docs uf p email w0] rama_emitidas_no_vacia [of docs uf p email w0]
  by blast

theorem rama_vacia_no_registra_auditoria_testigo:
  "metodo solicitud_ejemplo = ''POST''
   \<and> periodo solicitud_ejemplo = Some ''2026-01''
   \<and> coincide_periodo ''2026-01''
   \<and> remoto mundo_compras = RespuestaHttp 200 ''{}''
        (Inr \<lparr>detalleVentas = Some [], detalleCompras = Some [doc_ejemplo]\<rparr>)
   \<and> respuesta_ok 200
   \<and> ventas_de \<lparr>detalleVentas = Some [], detalleCompras = Some [doc_ejemplo]\<rparr> = []
   \<and> filter (\<lambda>l. tipo_sync l = ''facturas_emitidas'')
        (sii_sync_log (snd (handler solicitud_ejemplo credenciales_ejemplo mundo_compras))) =
       filter (\<lambda>l. tipo_sync l = ''facturas_emitidas'') (sii_sync_log mundo_compras)
   \<and> facturas_emitidas (snd (handler solicitud_ejemplo credenciales_ejemplo mundo_compras)) =
       facturas_emitidas mundo_compras
   \<and> map tipo_sync (sii_sync_log (snd (handler solicitud_ejemplo credenciales_ejemplo mundo_compras))) =
       [''facturas_recibidas'']
   \<and> map numero_folio (facturas_recibidas (snd (handler solicitud_ejemplo credenciales_ejemplo mundo_compras)))
       = [100]
   \<and> remoto mundo_ejemplo = RespuestaHttp 200 ''{}''
        (Inr \<lparr>detalleVentas = Some [doc_ejemplo], detalleCompras = None\<rparr>)
   \<and> compras_de \<lparr>detalleVentas = Some [doc_ejemplo], detalleCompras = None\<rparr> = []
   \<and> filter (\<lambda>l. tipo_sync l = ''facturas_recibidas'')
        (sii_sync_log (snd (handler solicitud_ejemplo credenciales_ejemplo mundo_ejemplo))) =
       filter (\<lambda>l. tipo_sync l = ''facturas_recibidas'') (sii_sync_log mundo_ejemplo)
   \<and> map tipo_sync (sii_sync_log (snd (handler solicitud_ejemplo credenciales_ejemplo mundo_ejemplo))) =
       [''facturas_emitidas'']"
proof -
  have h1: "metodo solicitud_ejemplo = ''POST''"
    by code_simp
  have h2: "periodo solicitud_ejemplo = Some ''2026-01''"
    by code_simp
  have h3: "coincide_periodo ''2026-01''"
    by code_simp
  have h4: "remoto mundo_compras = RespuestaHttp 200 ''{}''
        (Inr \<lparr>detalleVentas = Some [], detalleCompras = Some [doc_ejemplo]\<rparr>)"
    by (simp add: mundo_compras_def)
  have h4': "remoto mundo_ejemplo = RespuestaHttp 200 ''{}''
        (Inr \<lparr>detalleVentas = Some [doc_ejemplo], detalleCompras = None\<rparr>)"
    by (simp add: mundo_ejemplo_def)
  have h5: "respuesta_ok 200"
    by (simp add: respuesta_ok_def)
  have h6: "ventas_de \<lparr>detalleVentas = Some [], detalleCompras = Some [doc_ejemplo]\<rparr> = []"
    by (simp add: ventas_de_def)
  have h6': "compras_de \<lparr>detalleVentas = Some [doc_ejemplo], detalleCompras = None\<rparr> = []"
    by (simp add: compras_de_def)
  have e1: "map tipo_sync (sii_sync_log (snd (handler solicitud_ejemplo credenciales_ejemplo mundo_compras))) =
       [''facturas_recibidas'']"
    by code_simp
  have e2: "map numero_folio (facturas_recibidas (snd (handler solicitud_ejemplo credenciales_ejemplo mundo_compras)))
       = [100]"
    by code_simp
  have e3: "map tipo_sync (sii_sync_log (snd (handler solicitud_ejemplo credenciales_ejemplo mundo_ejemplo))) =
       [''facturas_emitidas'']"
    by code_simp
  from rama_vacia_no_registra_auditoria [OF h1 h2 h3 h4 h5, of credenciales_ejemplo] h6
  have c1: "filter (\<lambda>l. tipo_sync l = ''facturas_emitidas'')
        (sii_sync_log (snd (handler solicitud_ejemplo credenciales_ejemplo mundo_compras))) =
       filter (\<lambda>l. tipo_sync l = ''facturas_emitidas'') (sii_sync_log mundo_compras)
     \<and> facturas_emitidas (snd (handler solicitud_ejemplo credenciales_ejemplo mundo_compras)) =
       facturas_emitidas mundo_compras"
    by blast
  from rama_vacia_no_registra_auditoria [OF h1 h2 h3 h4' h5, of credenciales_ejemplo] h6'
  have c2: "filter (\<lambda>l. tipo_sync l = ''facturas_recibidas'')
        (sii_sync_log (snd (handler solicitud_ejemplo credenciales_ejemplo mundo_ejemplo))) =
       filter (\<lambda>l. tipo_sync l = ''facturas_recibidas'') (sii_sync_log mundo_ejemplo)"
    by blast
  from h1 h2 h3 h4 h4' h5 h6 h6' e1 e2 e3 c1 c2 show ?thesis
    by blast
qed

end
